theory Spec2Isabelle
  imports Complex_Main "HOL-Library.Log_Nat"
begin

section \<open>Tick receivers of mt5-docker: data model\<close>

text \<open>
  The development embeds \<^verbatim>\<open>HighPerformanceTickReceiver\<close> of
  \<^verbatim>\<open>high_performance_receiver.py\<close> and \<^verbatim>\<open>MT5TickSubscriber\<close> of
  \<^verbatim>\<open>backup_receiver.py\<close>. Mutable attributes of \<^verbatim>\<open>self\<close> become fields of a
  record that every method takes and returns. The embedding starts after the library
  calls \<^verbatim>\<open>json.loads\<close>, \<^verbatim>\<open>int\<close> and \<^verbatim>\<open>datetime.fromtimestamp\<close>: a field of
  the decoded payload records whether the key is absent, whether the library call on it
  raises, or the value the call returns. The clock reading \<^verbatim>\<open>int(time.time())\<close> is an
  argument. The process is taken to run in UTC, so a naive local datetime is the number
  of seconds since 1970-01-01 00:00:00 and \<^verbatim>\<open>timestamp()\<close> is the identity on it.
  SQLite is modelled by its tables and their primary keys; input/output failures of the
  database file are outside the model. A Python int outside the 64-bit range of an
  INTEGER column makes \<^verbatim>\<open>cursor.execute\<close> raise OverflowError, which is not a
  \<^verbatim>\<open>sqlite3.Error\<close>: this is modelled for the sequence numbers, which come from the
  payload. The counts of a bucket start at 0 and grow by one for each tick and a minute
  is a datetime, so the values written by \<^verbatim>\<open>_save_gap_counts\<close> always fit.
\<close>

subsection \<open>Exceptions\<close>

text \<open>
  A method either returns or raises; the attributes assigned before a \<^verbatim>\<open>raise\<close>
  keep their values, so both outcomes carry the state. \<open>DecodeError\<close>:
  \<^verbatim>\<open>json.loads\<close> raises or the payload is not an object. \<open>ConversionError\<close>:
  \<^verbatim>\<open>int(...)\<close> or \<^verbatim>\<open>datetime.fromtimestamp(...)\<close> raises. \<open>OverflowError\<close>: an
  int bound to an SQL statement is outside the 64-bit range. \<open>OperandError\<close>: the
  gap computation raises (TypeError, OverflowError or ZeroDivisionError).
\<close>

datatype error = DecodeError | ConversionError | OverflowError | OperandError

datatype 's outcome = Done 's | Raised error 's

fun state_of :: "'s outcome \<Rightarrow> 's" where
  "state_of (Done s) = s"
| "state_of (Raised e s) = s"

fun is_done :: "'s outcome \<Rightarrow> bool" where
  "is_done (Done s) = True"
| "is_done (Raised e s) = False"

subsection \<open>Python floats (IEEE 754 binary64)\<close>

text \<open>
  A float is its exact rational value, an infinity or NaN. The sign of zero is not
  kept: subtraction, \<^verbatim>\<open>abs\<close>, division by a nonzero constant and comparison with
  \<^verbatim>\<open>1.0\<close>, the only operations of the source on bids, do not observe it.
\<close>

datatype fl = Finite rat | PosInf | NegInf | NaN

definition pow2 :: "int \<Rightarrow> rat" where
  "pow2 e = (if 0 \<le> e then 2 ^ nat e else 1 / 2 ^ nat (- e))"

definition round_half_even :: "rat \<Rightarrow> int" where
  "round_half_even y =
     (let f = \<lfloor>y\<rfloor>; d = y - of_int f
      in if d < 1 / 2 then f
         else if 1 / 2 < d then f + 1
         else if even f then f else f + 1)"

definition ilog2 :: "rat \<Rightarrow> int" where
  \<comment> \<open>\<open>\<lfloor>log\<^sub>2 x\<rfloor>\<close> for \<open>0 < x\<close>\<close>
  "ilog2 x =
     (let (p, q) = quotient_of x; d = bitlen p - bitlen q
      in if pow2 d \<le> x then d else d - 1)"

definition round_double :: "rat \<Rightarrow> fl" where
  \<comment> \<open>round to nearest, ties to even, 53-bit significand, exponents -1022..1023\<close>
  "round_double x =
     (if x = 0 then Finite 0
      else
        let a = \<bar>x\<bar>;
            e = max (ilog2 a) (- 1022);
            ulp = pow2 (e - 52);
            r = of_int (round_half_even (a / ulp)) * ulp
        in if pow2 1024 \<le> r then (if 0 < x then PosInf else NegInf)
           else Finite (if 0 < x then r else - r))"

fun fl_sub :: "fl \<Rightarrow> fl \<Rightarrow> fl" where
  "fl_sub (Finite x) (Finite y) = round_double (x - y)"
| "fl_sub NaN _ = NaN"
| "fl_sub _ NaN = NaN"
| "fl_sub PosInf PosInf = NaN"
| "fl_sub NegInf NegInf = NaN"
| "fl_sub PosInf _ = PosInf"
| "fl_sub NegInf _ = NegInf"
| "fl_sub (Finite x) PosInf = NegInf"
| "fl_sub (Finite x) NegInf = PosInf"

fun fl_abs :: "fl \<Rightarrow> fl" where
  "fl_abs (Finite x) = Finite \<bar>x\<bar>"
| "fl_abs PosInf = PosInf"
| "fl_abs NegInf = PosInf"
| "fl_abs NaN = NaN"

fun fl_div :: "fl \<Rightarrow> fl \<Rightarrow> fl option" where
  \<comment> \<open>\<^verbatim>\<open>a / b\<close>; \<open>None\<close> is ZeroDivisionError\<close>
  "fl_div a (Finite y) =
     (if y = 0 then None
      else Some (case a of
                   Finite x \<Rightarrow> round_double (x / y)
                 | PosInf \<Rightarrow> (if 0 < y then PosInf else NegInf)
                 | NegInf \<Rightarrow> (if 0 < y then NegInf else PosInf)
                 | NaN \<Rightarrow> NaN))"
| "fl_div (Finite x) PosInf = Some (Finite 0)"
| "fl_div (Finite x) NegInf = Some (Finite 0)"
| "fl_div _ _ = Some NaN"

fun fl_ge_one :: "fl \<Rightarrow> bool" where
  \<comment> \<open>\<^verbatim>\<open>g >= 1.0\<close>; every comparison with NaN is false\<close>
  "fl_ge_one (Finite x) = (1 \<le> x)"
| "fl_ge_one PosInf = True"
| "fl_ge_one NegInf = False"
| "fl_ge_one NaN = False"

definition float_of_int :: "int \<Rightarrow> fl option" where
  \<comment> \<open>conversion of a Python int in mixed arithmetic; \<open>None\<close> is OverflowError\<close>
  "float_of_int i =
     (case round_double (of_int i) of Finite r \<Rightarrow> Some (Finite r) | _ \<Rightarrow> None)"

subsection \<open>Decoded payloads\<close>

text \<open>
  A JSON value other than \<^verbatim>\<open>null\<close>. The source never looks inside a list or an
  object, so these carry no content.
\<close>

datatype jval = JBool bool | JInt int | JFloat fl | JStr string | JArray | JObject

datatype pynum = PyInt int | PyFloat fl

fun as_number :: "jval \<Rightarrow> pynum option" where
  \<comment> \<open>the operand of \<^verbatim>\<open>-\<close>; \<^verbatim>\<open>bool\<close> is a subclass of \<^verbatim>\<open>int\<close>; \<open>None\<close> is TypeError\<close>
  "as_number (JBool b) = Some (PyInt (if b then 1 else 0))"
| "as_number (JInt i) = Some (PyInt i)"
| "as_number (JFloat f) = Some (PyFloat f)"
| "as_number (JStr s) = None"
| "as_number JArray = None"
| "as_number JObject = None"

datatype 'a fld = Absent | Raises | Val 'a

text \<open>
  \<open>seq_num\<close>: the key is absent, \<^verbatim>\<open>int(tick_data["seq_num"])\<close> raises, or the integer
  it returns. \<open>bid\<close>: \<^verbatim>\<open>tick_data.get("bid")\<close>, \<open>None\<close> for a missing key and for
  \<^verbatim>\<open>null\<close>. \<open>time\<close>: the key is absent, \<^verbatim>\<open>datetime.fromtimestamp\<close> raises, or
  the whole seconds of the datetime it returns (the microseconds are dropped by
  \<^verbatim>\<open>replace(second=0, microsecond=0)\<close> in any case).
\<close>

record tick =
  seq_num :: "int fld"
  bid :: "jval option"
  time :: "int fld"

text \<open>
  \<open>Undecodable\<close>: \<^verbatim>\<open>json.loads\<close> raises JSONDecodeError, or returns a value that is
  not an object, on which \<^verbatim>\<open>"seq_num" in tick_data\<close>, \<^verbatim>\<open>tick_data["seq_num"]\<close> or
  \<^verbatim>\<open>tick_data.get\<close> raises before any attribute is assigned.
\<close>

datatype payload = Undecodable | Decoded tick

subsection \<open>The SQLite database\<close>

record tick_gap_row =
  tg_timestamp :: int
  tg_symbol :: string
  tg_minute :: string
  large_gap_count :: int
  small_gap_count :: int

record sequence_gap_row =
  sg_timestamp :: int
  sg_symbol :: string
  sg_gap_size :: int
  sg_expected_seq :: int
  sg_received_seq :: int

record database =
  is_closed :: bool
  tick_gaps :: "tick_gap_row list"
  sequence_gaps :: "sequence_gap_row list"

definition tick_gap_key :: "tick_gap_row \<Rightarrow> int \<times> string" where
  \<comment> \<open>\<^verbatim>\<open>PRIMARY KEY (timestamp, symbol)\<close>\<close>
  "tick_gap_key r = (tg_timestamp r, tg_symbol r)"

definition sequence_gap_key :: "sequence_gap_row \<Rightarrow> int \<times> string \<times> int" where
  \<comment> \<open>\<^verbatim>\<open>PRIMARY KEY (timestamp, symbol, expected_seq)\<close>\<close>
  "sequence_gap_key r = (sg_timestamp r, sg_symbol r, sg_expected_seq r)"

definition insert_or_replace :: "tick_gap_row list \<Rightarrow> tick_gap_row \<Rightarrow> tick_gap_row list" where
  \<comment> \<open>\<^verbatim>\<open>INSERT OR REPLACE INTO tick_gaps\<close>: the rows in conflict are deleted, then the row is inserted\<close>
  "insert_or_replace rows r = filter (\<lambda>r'. tick_gap_key r' \<noteq> tick_gap_key r) rows @ [r]"

definition fits_int64 :: "int \<Rightarrow> bool" where
  \<comment> \<open>the range of an SQLite INTEGER; outside it the bind raises OverflowError\<close>
  "fits_int64 i \<longleftrightarrow> - (2 ^ 63) \<le> i \<and> i < 2 ^ 63"

definition insert_row :: "sequence_gap_row list \<Rightarrow> sequence_gap_row \<Rightarrow> sequence_gap_row list option" where
  \<comment> \<open>\<^verbatim>\<open>INSERT INTO sequence_gaps\<close>; \<open>None\<close> is \<^verbatim>\<open>sqlite3.IntegrityError\<close>\<close>
  "insert_row rows r =
     (if sequence_gap_key r \<in> set (map sequence_gap_key rows) then None else Some (rows @ [r]))"

section \<open>HighPerformanceTickReceiver\<close>

record counts =
  large :: int
  small :: int

record gap_event =
  ge_symbol :: string
  ge_gap_size :: int
  ge_expected_seq :: int
  ge_received_seq :: int

text \<open>
  The attributes of \<^verbatim>\<open>__init__\<close>. \<open>gap_counts\<close> is a dict iterated by
  \<^verbatim>\<open>items()\<close>, so it is an association list in insertion order. \<open>requester\<close> is
  \<open>None\<close> when confirmations are disabled, otherwise whether the socket is still open.
  \<open>gap_log\<close> is the console output of \<^verbatim>\<open>_check_sequence\<close>, one entry for each
  \<^verbatim>\<open>Detected sequence gap\<close> line; the other console output is not kept.
\<close>

record receiver =
  running :: bool
  queue_maxsize :: int
  message_queue :: "string list"
  seq_nums :: "string \<rightharpoonup> int"
  missed_messages :: int
  prev_bids :: "string \<rightharpoonup> jval"
  minute_start_time :: "int option"
  gap_counts :: "(string \<times> counts) list"
  db_conn :: "database option"
  receive_count :: int
  process_count :: int
  subscriber_open :: bool
  requester :: "bool option"
  context_open :: bool
  gap_log :: "gap_event list"

definition init :: "bool \<Rightarrow> int \<Rightarrow> receiver" where
  \<comment> \<open>\<^verbatim>\<open>__init__(enable_confirmations, queue_size)\<close>\<close>
  "init enable_confirmations queue_size =
     \<lparr>running = False, queue_maxsize = queue_size, message_queue = [],
      seq_nums = Map.empty, missed_messages = 0, prev_bids = Map.empty,
      minute_start_time = None, gap_counts = [], db_conn = None,
      receive_count = 0, process_count = 0, subscriber_open = True,
      requester = (if enable_confirmations then Some True else None),
      context_open = True, gap_log = []\<rparr>"

definition init_database :: "receiver \<Rightarrow> database option \<Rightarrow> receiver" where
  \<comment> \<open>the argument is what \<^verbatim>\<open>sqlite3.connect\<close> and the two \<^verbatim>\<open>CREATE TABLE IF NOT EXISTS\<close>
      give: the tables of the file, or \<open>None\<close> when \<^verbatim>\<open>sqlite3.Error\<close> is raised\<close>
  "init_database st opened = st\<lparr>db_conn := opened\<rparr>"

subsection \<open>Receiving: the bounded queue\<close>

definition queue_full :: "receiver \<Rightarrow> bool" where
  \<comment> \<open>\<^verbatim>\<open>queue.Queue\<close>: a \<^verbatim>\<open>maxsize\<close> of zero or less is unbounded\<close>
  "queue_full st \<longleftrightarrow> 0 < queue_maxsize st \<and> queue_maxsize st \<le> int (length (message_queue st))"

definition enqueue :: "receiver \<Rightarrow> string \<Rightarrow> receiver" where
  \<comment> \<open>lines 238-241: \<^verbatim>\<open>put(message, timeout=0.1)\<close> with no consumer running during the
      wait; \<^verbatim>\<open>queue.Full\<close> is caught and a warning is printed\<close>
  "enqueue st message =
     (if queue_full st then st
      else st\<lparr>message_queue := message_queue st @ [message]\<rparr>)"

definition receive_message :: "receiver \<Rightarrow> string \<Rightarrow> receiver" where
  \<comment> \<open>lines 222-241, one iteration of \<^verbatim>\<open>_receive_loop\<close> with a message ready; the
      confirmation round trip touches no attribute\<close>
  "receive_message st message = enqueue (st\<lparr>receive_count := receive_count st + 1\<rparr>) message"

definition stats_report :: "receiver \<Rightarrow> int \<times> int \<times> int \<times> int" where
  \<comment> \<open>lines 291-296: the numbers \<^verbatim>\<open>_stats_loop\<close> prints beside the rates:
      Received, Processed, Queue, Missed\<close>
  "stats_report st =
     (receive_count st, process_count st, int (length (message_queue st)), missed_messages st)"

subsection \<open>Sequence gaps\<close>

definition try_record_sequence_gap :: "database \<Rightarrow> sequence_gap_row \<Rightarrow> database outcome" where
  \<comment> \<open>lines 386-396. \<^verbatim>\<open>sqlite3.Error\<close> is caught and printed: \<^verbatim>\<open>cursor()\<close> on a
      closed connection, the INSERT under a primary key in use. The parameters are bound
      before the statement runs: an int outside 64 bits raises OverflowError, which the
      \<^verbatim>\<open>except sqlite3.Error\<close> clause does not catch\<close>
  "try_record_sequence_gap db r =
     (if is_closed db then Done db
      else if \<not> (fits_int64 (sg_timestamp r) \<and> fits_int64 (sg_gap_size r) \<and>
                  fits_int64 (sg_expected_seq r) \<and> fits_int64 (sg_received_seq r))
      then Raised OverflowError db
      else case insert_row (sequence_gaps db) r of
             None \<Rightarrow> Done db
           | Some rows \<Rightarrow> Done (db\<lparr>sequence_gaps := rows\<rparr>))"

definition try_check_sequence :: "receiver \<Rightarrow> int \<Rightarrow> string \<Rightarrow> int \<Rightarrow> receiver outcome" where
  \<comment> \<open>\<^verbatim>\<open>_check_sequence(symbol, seq_num)\<close>, lines 370-399; \<open>now\<close> is
      \<^verbatim>\<open>int(time.time())\<close>. The assignment of line 399 is reached only when the lines
      before it return\<close>
  "try_check_sequence st now symbol sn =
     (let checked =
        (case seq_nums st symbol of
           None \<Rightarrow> Done st
         | Some last_seq \<Rightarrow>
             (let expected_seq = last_seq + 1
              in if sn > expected_seq then
                   (let gap_size = sn - expected_seq;
                        st' = st\<lparr>missed_messages := missed_messages st + gap_size,
                                 gap_log := gap_log st @
                                   [\<lparr>ge_symbol = symbol, ge_gap_size = gap_size,
                                     ge_expected_seq = expected_seq, ge_received_seq = sn\<rparr>]\<rparr>
                    in case db_conn st' of
                         None \<Rightarrow> Done st'
                       | Some db \<Rightarrow>
                           (case try_record_sequence_gap db
                                   \<lparr>sg_timestamp = now, sg_symbol = symbol, sg_gap_size = gap_size,
                                    sg_expected_seq = expected_seq, sg_received_seq = sn\<rparr> of
                              Done db' \<Rightarrow> Done (st'\<lparr>db_conn := Some db'\<rparr>)
                            | Raised e db' \<Rightarrow> Raised e st'))
                 else Done st))
      in case checked of
           Done st1 \<Rightarrow> Done (st1\<lparr>seq_nums := (seq_nums st1)(symbol \<mapsto> sn)\<rparr>)
         | Raised e st1 \<Rightarrow> Raised e st1)"

definition check_sequence :: "receiver \<Rightarrow> int \<Rightarrow> string \<Rightarrow> int \<Rightarrow> receiver" where
  \<comment> \<open>the attributes after the call, whether it returned or raised\<close>
  "check_sequence st now symbol sn = state_of (try_check_sequence st now symbol sn)"

subsection \<open>Pips\<close>

definition endswith :: "string \<Rightarrow> string \<Rightarrow> bool" where
  "endswith s suffix \<longleftrightarrow>
     length suffix \<le> length s \<and> drop (length s - length suffix) s = suffix"

definition get_pip_size :: "string \<Rightarrow> fl" where
  \<comment> \<open>the literals \<^verbatim>\<open>0.01\<close> and \<^verbatim>\<open>0.0001\<close> are the doubles nearest to them\<close>
  "get_pip_size symbol =
     (if endswith symbol ''JPY'' then round_double (1 / 100) else round_double (1 / 10000))"

definition py_abs_sub :: "jval \<Rightarrow> jval \<Rightarrow> pynum option" where
  \<comment> \<open>\<^verbatim>\<open>abs(current_bid - prev_bid)\<close>: \<open>None\<close> is TypeError for an operand that is not a
      number and OverflowError for an int too large to convert to float\<close>
  "py_abs_sub a b =
     (case (as_number a, as_number b) of
        (Some (PyInt i), Some (PyInt j)) \<Rightarrow> Some (PyInt \<bar>i - j\<bar>)
      | (Some (PyInt i), Some (PyFloat y)) \<Rightarrow>
          (case float_of_int i of None \<Rightarrow> None
           | Some x \<Rightarrow> Some (PyFloat (fl_abs (fl_sub x y))))
      | (Some (PyFloat x), Some (PyInt j)) \<Rightarrow>
          (case float_of_int j of None \<Rightarrow> None
           | Some y \<Rightarrow> Some (PyFloat (fl_abs (fl_sub x y))))
      | (Some (PyFloat x), Some (PyFloat y)) \<Rightarrow> Some (PyFloat (fl_abs (fl_sub x y)))
      | _ \<Rightarrow> None)"

definition py_truediv :: "pynum \<Rightarrow> fl \<Rightarrow> fl option" where
  \<comment> \<open>\<^verbatim>\<open>n / pip_size\<close> with a float divisor: \<open>None\<close> is OverflowError or ZeroDivisionError\<close>
  "py_truediv n p =
     (case n of
        PyInt i \<Rightarrow> (case float_of_int i of None \<Rightarrow> None | Some x \<Rightarrow> fl_div x p)
      | PyFloat x \<Rightarrow> fl_div x p)"

definition gap_pips :: "string \<Rightarrow> jval \<Rightarrow> jval \<Rightarrow> fl option" where
  \<comment> \<open>line 354: \<^verbatim>\<open>abs(current_bid - prev_bid) / pip_size\<close>; \<open>None\<close> when it raises\<close>
  "gap_pips symbol current_bid prev_bid =
     (case py_abs_sub current_bid prev_bid of
        None \<Rightarrow> None
      | Some n \<Rightarrow> py_truediv n (get_pip_size symbol))"

subsection \<open>Minute windows\<close>

definition digit :: "int \<Rightarrow> char" where
  "digit d = ''0123456789'' ! nat (d mod 10)"

definition pad2 :: "int \<Rightarrow> string" where
  "pad2 n = [digit (n div 10), digit n]"

definition pad4 :: "int \<Rightarrow> string" where
  "pad4 n = [digit (n div 1000), digit (n div 100), digit (n div 10), digit n]"

definition civil_from_days :: "int \<Rightarrow> int \<times> int \<times> int" where
  \<comment> \<open>year, month and day of the proleptic Gregorian calendar, from the days since 1970-01-01\<close>
  "civil_from_days days =
     (let z = days + 719468;
          era = z div 146097;
          doe = z mod 146097;
          yoe = (doe - doe div 1460 + doe div 36524 - doe div 146096) div 365;
          doy = doe - (365 * yoe + yoe div 4 - yoe div 100);
          mp = (5 * doy + 2) div 153;
          d = doy - (153 * mp + 2) div 5 + 1;
          m = (if mp < 10 then mp + 3 else mp - 9);
          y = yoe + era * 400 + (if m \<le> 2 then 1 else 0)
      in (y, m, d))"

definition minute_str :: "int \<Rightarrow> string" where
  \<comment> \<open>\<^verbatim>\<open>strftime("%Y-%m-%d %H:%M:00")\<close>, for the years 1000 to 9999\<close>
  "minute_str t =
     (let (y, m, d) = civil_from_days (t div 86400);
          s = t mod 86400
      in pad4 y @ ''-'' @ pad2 m @ ''-'' @ pad2 d @ '' '' @
         pad2 (s div 3600) @ '':'' @ pad2 (s mod 3600 div 60) @ '':00'')"

definition minute_of :: "int \<Rightarrow> int" where
  \<comment> \<open>\<^verbatim>\<open>tick_time.replace(second=0, microsecond=0)\<close>\<close>
  "minute_of t = t - t mod 60"

definition gap_rows :: "int \<Rightarrow> (string \<times> counts) list \<Rightarrow> tick_gap_row list" where
  \<comment> \<open>the parameter tuples of the \<^verbatim>\<open>INSERT OR REPLACE\<close> statements, in the order of
      \<^verbatim>\<open>gap_counts.items()\<close>\<close>
  "gap_rows m gc =
     map (\<lambda>(symbol, c). \<lparr>tg_timestamp = m, tg_symbol = symbol, tg_minute = minute_str m,
                          large_gap_count = large c, small_gap_count = small c\<rparr>) gc"

definition write_gap_counts :: "database \<Rightarrow> int \<Rightarrow> (string \<times> counts) list \<Rightarrow> database" where
  \<comment> \<open>the \<^verbatim>\<open>try\<close> block of \<^verbatim>\<open>_save_gap_counts\<close>: on a closed connection
      \<^verbatim>\<open>cursor()\<close> raises \<^verbatim>\<open>sqlite3.ProgrammingError\<close>, which is caught and printed\<close>
  "write_gap_counts db m gc =
     (if is_closed db then db
      else db\<lparr>tick_gaps := foldl insert_or_replace (tick_gaps db) (gap_rows m gc)\<rparr>)"

definition save_gap_counts :: "receiver \<Rightarrow> receiver" where
  \<comment> \<open>\<^verbatim>\<open>_save_gap_counts\<close>, lines 409-437\<close>
  "save_gap_counts st =
     (case db_conn st of
        None \<Rightarrow> st
      | Some db \<Rightarrow>
          (case minute_start_time st of
             None \<Rightarrow> st
           | Some m \<Rightarrow> st\<lparr>db_conn := Some (write_gap_counts db m (gap_counts st))\<rparr>))"

definition roll_minute :: "receiver \<Rightarrow> int \<Rightarrow> receiver" where
  \<comment> \<open>lines 336-342: save and reset on a new minute, then set the current minute\<close>
  "roll_minute st current_minute =
     (let st1 = (if minute_start_time st \<noteq> None \<and> Some current_minute \<noteq> minute_start_time st
                 then (save_gap_counts st)\<lparr>gap_counts := []\<rparr>
                 else st)
      in st1\<lparr>minute_start_time := Some current_minute\<rparr>)"

definition ensure_counts :: "(string \<times> counts) list \<Rightarrow> string \<Rightarrow> (string \<times> counts) list" where
  \<comment> \<open>lines 345-346\<close>
  "ensure_counts gc symbol =
     (if map_of gc symbol = None then gc @ [(symbol, \<lparr>large = 0, small = 0\<rparr>)] else gc)"

definition add_large :: "(string \<times> counts) list \<Rightarrow> string \<Rightarrow> (string \<times> counts) list" where
  \<comment> \<open>\<^verbatim>\<open>gap_counts[symbol]["large"] += 1\<close>\<close>
  "add_large gc symbol = map (\<lambda>(k, c). if k = symbol then (k, c\<lparr>large := large c + 1\<rparr>) else (k, c)) gc"

definition add_small :: "(string \<times> counts) list \<Rightarrow> string \<Rightarrow> (string \<times> counts) list" where
  \<comment> \<open>\<^verbatim>\<open>gap_counts[symbol]["small"] += 1\<close>\<close>
  "add_small gc symbol = map (\<lambda>(k, c). if k = symbol then (k, c\<lparr>small := small c + 1\<rparr>) else (k, c)) gc"

definition count_gap :: "receiver \<Rightarrow> string \<Rightarrow> jval \<Rightarrow> receiver option" where
  \<comment> \<open>lines 349-360; \<open>None\<close> when the gap computation raises\<close>
  "count_gap st symbol current_bid =
     (case prev_bids st symbol of
        None \<Rightarrow> Some st
      | Some prev_bid \<Rightarrow>
          (case gap_pips symbol current_bid prev_bid of
             None \<Rightarrow> None
           | Some g \<Rightarrow>
               Some (if fl_ge_one g
                     then st\<lparr>gap_counts := add_large (gap_counts st) symbol\<rparr>
                     else st\<lparr>gap_counts := add_small (gap_counts st) symbol\<rparr>)))"

definition try_aggregate :: "receiver \<Rightarrow> string \<Rightarrow> jval \<Rightarrow> int \<Rightarrow> receiver outcome" where
  \<comment> \<open>lines 333-363 for a tick with a bid and a time. An exception in the gap computation
      leaves the assignments made so far in place; the bid is not stored\<close>
  "try_aggregate st symbol current_bid t =
     (let st1 = roll_minute st (minute_of t);
          st2 = st1\<lparr>gap_counts := ensure_counts (gap_counts st1) symbol\<rparr>
      in case count_gap st2 symbol current_bid of
           None \<Rightarrow> Raised OperandError st2
         | Some st3 \<Rightarrow> Done (st3\<lparr>prev_bids := (prev_bids st3)(symbol \<mapsto> current_bid)\<rparr>))"

definition aggregate :: "receiver \<Rightarrow> string \<Rightarrow> jval \<Rightarrow> int \<Rightarrow> receiver" where
  \<comment> \<open>the attributes after these lines, whether they completed or raised\<close>
  "aggregate st symbol current_bid t = state_of (try_aggregate st symbol current_bid t)"

definition sequence_step :: "receiver \<Rightarrow> int \<Rightarrow> string \<Rightarrow> tick \<Rightarrow> receiver outcome" where
  \<comment> \<open>lines 322-324\<close>
  "sequence_step st now symbol tick_data =
     (case seq_num tick_data of
        Absent \<Rightarrow> Done st
      | Raises \<Rightarrow> Raised ConversionError st
      | Val sn \<Rightarrow> try_check_sequence st now symbol sn)"

definition try_process_tick :: "receiver \<Rightarrow> int \<Rightarrow> string \<Rightarrow> payload \<Rightarrow> receiver outcome" where
  \<comment> \<open>the \<^verbatim>\<open>try\<close> block of \<^verbatim>\<open>_process_tick(symbol, payload)\<close>, lines 318-363; \<open>now\<close> is
      the clock read by \<^verbatim>\<open>_check_sequence\<close>. \<open>Done\<close> is the end of the block or the
      \<^verbatim>\<open>return\<close> of line 329\<close>
  "try_process_tick st now symbol pl =
     (case pl of
        Undecodable \<Rightarrow> Raised DecodeError st
      | Decoded tick_data \<Rightarrow>
          (case sequence_step st now symbol tick_data of
             Raised e st1 \<Rightarrow> Raised e st1
           | Done st1 \<Rightarrow>
               (case bid tick_data of
                  None \<Rightarrow> Done st1
                | Some current_bid \<Rightarrow>
                    (case time tick_data of
                       Absent \<Rightarrow> Done (st1\<lparr>prev_bids := (prev_bids st1)(symbol \<mapsto> current_bid)\<rparr>)
                     | Raises \<Rightarrow> Raised ConversionError st1
                     | Val t \<Rightarrow> try_aggregate st1 symbol current_bid t))))"

definition process_tick :: "receiver \<Rightarrow> int \<Rightarrow> string \<Rightarrow> payload \<Rightarrow> receiver" where
  \<comment> \<open>\<^verbatim>\<open>_process_tick\<close>, lines 315-368: both \<^verbatim>\<open>except\<close> clauses print and return, so the
      method always returns, with the attributes as the \<^verbatim>\<open>try\<close> block left them\<close>
  "process_tick st now symbol pl = state_of (try_process_tick st now symbol pl)"

fun process_all :: "receiver \<Rightarrow> (int \<times> string \<times> payload) list \<Rightarrow> receiver" where
  \<comment> \<open>the calls of \<^verbatim>\<open>_process_tick\<close> made by \<^verbatim>\<open>_process_loop\<close> for the TICK messages
      taken from the queue, each with the clock reading of its call\<close>
  "process_all st [] = st"
| "process_all st ((now, symbol, pl) # rest) = process_all (process_tick st now symbol pl) rest"

subsection \<open>Processing: the consumer of the queue\<close>

fun split_max :: "nat \<Rightarrow> string \<Rightarrow> string list" where
  \<comment> \<open>\<^verbatim>\<open>s.split('|', n)\<close>\<close>
  "split_max 0 s = [s]"
| "split_max (Suc n) s =
     (case dropWhile (\<lambda>c. c \<noteq> CHR ''|'') s of
        [] \<Rightarrow> [s]
      | _ # rest \<Rightarrow> takeWhile (\<lambda>c. c \<noteq> CHR ''|'') s # split_max n rest)"

definition process_message :: "(string \<Rightarrow> payload) \<Rightarrow> receiver \<Rightarrow> int \<Rightarrow> string \<Rightarrow> receiver" where
  \<comment> \<open>lines 263-271; \<open>loads\<close> is \<^verbatim>\<open>json.loads\<close> followed by the conversions of the fields\<close>
  "process_message loads st now message =
     (case split_max 2 message of
        [msg_type, symbol, pl] \<Rightarrow>
          (if msg_type = ''TICK''
           then (let st1 = process_tick st now symbol (loads pl)
                 in st1\<lparr>process_count := process_count st1 + 1\<rparr>)
           else st)
      | _ \<Rightarrow> st)"

definition process_next :: "(string \<Rightarrow> payload) \<Rightarrow> receiver \<Rightarrow> int \<Rightarrow> receiver" where
  \<comment> \<open>lines 255-274, one iteration of \<^verbatim>\<open>_process_loop\<close>: \<^verbatim>\<open>queue.Empty\<close> after the
      timeout, or the oldest message\<close>
  "process_next loads st now =
     (case message_queue st of
        [] \<Rightarrow> st
      | message # rest \<Rightarrow> process_message loads (st\<lparr>message_queue := rest\<rparr>) now message)"

subsection \<open>Shutdown\<close>

datatype action =
  SaveGapCounts | CloseSubscriber | CloseRequester | TermContext | CloseDatabase | PrintFinalStats

definition close_database :: "database option \<Rightarrow> database option" where
  "close_database c = map_option (\<lambda>db. db\<lparr>is_closed := True\<rparr>) c"

definition stop :: "receiver \<Rightarrow> receiver \<times> action list" where
  \<comment> \<open>\<^verbatim>\<open>stop()\<close>, lines 177-205, after the three threads have been joined; the list is
      the calls made, in order\<close>
  "stop st =
     (let st1 = st\<lparr>running := False\<rparr>;
          (st2, a2) = (if minute_start_time st1 \<noteq> None
                       then (save_gap_counts st1, [SaveGapCounts]) else (st1, []));
          st3 = st2\<lparr>subscriber_open := False\<rparr>;
          (st4, a4) = (case requester st3 of
                         None \<Rightarrow> (st3, [])
                       | Some _ \<Rightarrow> (st3\<lparr>requester := Some False\<rparr>, [CloseRequester]));
          st5 = st4\<lparr>context_open := False\<rparr>;
          (st6, a6) = (case db_conn st5 of
                         None \<Rightarrow> (st5, [])
                       | Some _ \<Rightarrow> (st5\<lparr>db_conn := close_database (db_conn st5)\<rparr>, [CloseDatabase]))
      in (st6, a2 @ [CloseSubscriber] @ a4 @ [TermContext] @ a6 @ [PrintFinalStats]))"

section \<open>MT5TickSubscriber\<close>

text \<open>
  The receiver of \<^verbatim>\<open>backup_receiver.py\<close> has no queue and no sequence check. Its
  \<^verbatim>\<open>_get_pip_size\<close> and the body of its \<^verbatim>\<open>_save_gap_counts\<close> are those of the
  class above, so \<open>get_pip_size\<close>, \<open>gap_pips\<close> and \<open>write_gap_counts\<close> serve both.
\<close>

record subscriber =
  sub_running :: bool
  socket_open :: bool
  sub_context_open :: bool
  tick_data :: "string \<rightharpoonup> tick"
  previous_bids :: "string \<rightharpoonup> jval"
  sub_minute_start_time :: "int option"
  sub_gap_counts :: "(string \<times> counts) list"
  sub_db_conn :: "database option"

definition sub_save_gap_counts :: "subscriber \<Rightarrow> subscriber" where
  \<comment> \<open>\<^verbatim>\<open>MT5TickSubscriber._save_gap_counts\<close>, lines 206-234\<close>
  "sub_save_gap_counts st =
     (case sub_db_conn st of
        None \<Rightarrow> st
      | Some db \<Rightarrow>
          (case sub_minute_start_time st of
             None \<Rightarrow> st
           | Some m \<Rightarrow> st\<lparr>sub_db_conn := Some (write_gap_counts db m (sub_gap_counts st))\<rparr>))"

definition sub_roll_minute :: "subscriber \<Rightarrow> int \<Rightarrow> subscriber" where
  \<comment> \<open>lines 168-175\<close>
  "sub_roll_minute st current_minute =
     (let st1 = (if sub_minute_start_time st \<noteq> None \<and> Some current_minute \<noteq> sub_minute_start_time st
                 then (sub_save_gap_counts st)\<lparr>sub_gap_counts := []\<rparr>
                 else st)
      in st1\<lparr>sub_minute_start_time := Some current_minute\<rparr>)"

definition sub_count_gap :: "subscriber \<Rightarrow> string \<Rightarrow> jval \<Rightarrow> subscriber option" where
  \<comment> \<open>lines 182-195; \<open>None\<close> when the gap computation raises\<close>
  "sub_count_gap st symbol current_bid =
     (case previous_bids st symbol of
        None \<Rightarrow> Some st
      | Some prev_bid \<Rightarrow>
          (case gap_pips symbol current_bid prev_bid of
             None \<Rightarrow> None
           | Some g \<Rightarrow>
               Some (if fl_ge_one g
                     then st\<lparr>sub_gap_counts := add_large (sub_gap_counts st) symbol\<rparr>
                     else st\<lparr>sub_gap_counts := add_small (sub_gap_counts st) symbol\<rparr>)))"

definition try_sub_process_tick :: "subscriber \<Rightarrow> string \<Rightarrow> payload \<Rightarrow> subscriber outcome" where
  \<comment> \<open>the \<^verbatim>\<open>try\<close> block of \<^verbatim>\<open>MT5TickSubscriber._process_tick\<close>, lines 153-199\<close>
  "try_sub_process_tick st symbol pl =
     (case pl of
        Undecodable \<Rightarrow> Raised DecodeError st
      | Decoded td \<Rightarrow>
          (case bid td of
             None \<Rightarrow> Done st
           | Some current_bid \<Rightarrow>
               (case time td of
                  Raises \<Rightarrow> Raised ConversionError st
                | Absent \<Rightarrow>
                    Done (st\<lparr>tick_data := (tick_data st)(symbol \<mapsto> td),
                             previous_bids := (previous_bids st)(symbol \<mapsto> current_bid)\<rparr>)
                | Val t \<Rightarrow>
                    (let st1 = sub_roll_minute st (minute_of t);
                         st2 = st1\<lparr>sub_gap_counts := ensure_counts (sub_gap_counts st1) symbol\<rparr>
                     in case sub_count_gap st2 symbol current_bid of
                          None \<Rightarrow> Raised OperandError st2
                        | Some st3 \<Rightarrow>
                            Done (st3\<lparr>tick_data := (tick_data st3)(symbol \<mapsto> td),
                                      previous_bids := (previous_bids st3)(symbol \<mapsto> current_bid)\<rparr>)))))"

definition sub_process_tick :: "subscriber \<Rightarrow> string \<Rightarrow> payload \<Rightarrow> subscriber" where
  \<comment> \<open>\<^verbatim>\<open>MT5TickSubscriber._process_tick\<close>, lines 150-204, with its \<^verbatim>\<open>except\<close> clauses\<close>
  "sub_process_tick st symbol pl = state_of (try_sub_process_tick st symbol pl)"

definition sub_stop :: "subscriber \<Rightarrow> subscriber \<times> action list" where
  \<comment> \<open>\<^verbatim>\<open>MT5TickSubscriber.stop()\<close>, lines 101-115, after the thread has been joined;
      \<open>CloseSubscriber\<close> is \<^verbatim>\<open>self.socket.close()\<close>\<close>
  "sub_stop st =
     (let st1 = st\<lparr>sub_running := False\<rparr>;
          st2 = st1\<lparr>socket_open := False\<rparr>;
          st3 = st2\<lparr>sub_context_open := False\<rparr>;
          (st4, a4) = (if sub_minute_start_time st3 \<noteq> None \<and> sub_gap_counts st3 \<noteq> []
                       then (sub_save_gap_counts st3, [SaveGapCounts]) else (st3, []));
          (st5, a5) = (case sub_db_conn st4 of
                         None \<Rightarrow> (st4, [])
                       | Some _ \<Rightarrow> (st4\<lparr>sub_db_conn := close_database (sub_db_conn st4)\<rparr>, [CloseDatabase]))
      in (st5, [CloseSubscriber, TermContext] @ a4 @ a5))"

section \<open>Runs of ticks\<close>

fun seq_of :: "(int \<times> string \<times> payload) list \<Rightarrow> (string \<times> int) list" where
  \<comment> \<open>the symbols and sequence numbers that reach \<^verbatim>\<open>_check_sequence\<close>, in order\<close>
  "seq_of [] = []"
| "seq_of ((now, symbol, Undecodable) # rest) = seq_of rest"
| "seq_of ((now, symbol, Decoded t) # rest) =
     (case seq_num t of Val sn \<Rightarrow> (symbol, sn) # seq_of rest | _ \<Rightarrow> seq_of rest)"

definition of_symbol :: "string \<Rightarrow> (string \<times> int) list \<Rightarrow> int list" where
  \<comment> \<open>the sequence numbers of one symbol, in the order of arrival\<close>
  "of_symbol s xs = map snd (filter (\<lambda>(k, n). k = s) xs)"

text \<open>
  The two conditions on a run that the statements about the missed-message counter use,
  written from their wording and not from the source: the numbers of each symbol, in the
  order of arrival, increase strictly, or each is the one before it plus 1.
\<close>

definition strictly_increasing_per_symbol :: "(string \<times> int) list \<Rightarrow> bool" where
  "strictly_increasing_per_symbol xs \<longleftrightarrow>
     (\<forall>s \<in> set (map fst xs). sorted_wrt (<) (of_symbol s xs))"

fun consecutive :: "int list \<Rightarrow> bool" where
  "consecutive (a # b # r) = (b = a + 1 \<and> consecutive (b # r))"
| "consecutive _ = True"

definition consecutive_per_symbol :: "(string \<times> int) list \<Rightarrow> bool" where
  "consecutive_per_symbol xs \<longleftrightarrow>
     (\<forall>s \<in> set (map fst xs). consecutive (of_symbol s xs))"

fun follows :: "int option \<Rightarrow> int list \<Rightarrow> bool" where
  \<comment> \<open>the numbers continue a last-seen value without a jump\<close>
  "follows l [] = True"
| "follows None (n # ns) = follows (Some n) ns"
| "follows (Some l) (n # ns) = (n = l + 1 \<and> follows (Some n) ns)"

section \<open>Example states\<close>

definition empty_database :: database where
  "empty_database = \<lparr>is_closed = False, tick_gaps = [], sequence_gaps = []\<rparr>"

definition example_receiver :: receiver where
  \<comment> \<open>connected, the window of 12:00 open with one bucket, the last EURUSD bid 1.1\<close>
  "example_receiver =
     (init True 10000)
       \<lparr>db_conn := Some empty_database,
        prev_bids := [''EURUSD'' \<mapsto> JFloat (round_double (11 / 10))],
        minute_start_time := Some 43200,
        gap_counts := [(''EURUSD'', \<lparr>large = 2, small = 3\<rparr>)]\<rparr>"

definition example_subscriber :: subscriber where
  \<comment> \<open>the same for the subscriber\<close>
  "example_subscriber =
     \<lparr>sub_running = True, socket_open = True, sub_context_open = True,
      tick_data = Map.empty,
      previous_bids = [''EURUSD'' \<mapsto> JFloat (round_double (11 / 10))],
      sub_minute_start_time = Some 43200,
      sub_gap_counts = [(''EURUSD'', \<lparr>large = 2, small = 3\<rparr>)],
      sub_db_conn = Some empty_database\<rparr>"

section \<open>Properties\<close>

subsection \<open>Which attributes each method assigns\<close>

lemma try_record_sequence_gap_state:
  "tick_gaps (state_of (try_record_sequence_gap db r)) = tick_gaps db"
  "is_closed (state_of (try_record_sequence_gap db r)) = is_closed db"
  by (simp_all add: try_record_sequence_gap_def split: option.splits)

lemma try_record_sequence_gap_raised:
  "try_record_sequence_gap db r = Raised e db' \<Longrightarrow> e = OverflowError \<and> db' = db"
  by (auto simp: try_record_sequence_gap_def split: if_splits option.splits)

lemma check_sequence_returned:
  "try_check_sequence st now symbol sn = Done st' \<Longrightarrow>
   seq_nums st' = (seq_nums st)(symbol \<mapsto> sn) \<and> st' = check_sequence st now symbol sn"
  by (auto simp: check_sequence_def try_check_sequence_def Let_def
      split: option.splits if_splits outcome.splits)

lemma check_sequence_raised:
  "try_check_sequence st now symbol sn = Raised e st' \<Longrightarrow>
   e = OverflowError \<and> seq_nums st' = seq_nums st \<and> st' = check_sequence st now symbol sn"
  by (auto simp: check_sequence_def try_check_sequence_def Let_def
      split: option.splits if_splits outcome.splits dest: try_record_sequence_gap_raised)

lemma check_sequence_aggregation:
  "prev_bids (check_sequence st now symbol sn) = prev_bids st"
  "minute_start_time (check_sequence st now symbol sn) = minute_start_time st"
  "gap_counts (check_sequence st now symbol sn) = gap_counts st"
  "message_queue (check_sequence st now symbol sn) = message_queue st"
  "receive_count (check_sequence st now symbol sn) = receive_count st"
  "process_count (check_sequence st now symbol sn) = process_count st"
  by (simp_all add: check_sequence_def try_check_sequence_def Let_def
      split: option.splits outcome.splits)

lemma check_sequence_tick_gaps:
  "map_option tick_gaps (db_conn (check_sequence st now symbol sn)) = map_option tick_gaps (db_conn st)"
  "map_option is_closed (db_conn (check_sequence st now symbol sn)) = map_option is_closed (db_conn st)"
proof -
  have "tick_gaps db' = tick_gaps db \<and> is_closed db' = is_closed db"
    if "try_record_sequence_gap db r = Done db'" for db r db'
    using try_record_sequence_gap_state [of db r] that by simp
  then show
    "map_option tick_gaps (db_conn (check_sequence st now symbol sn)) = map_option tick_gaps (db_conn st)"
    "map_option is_closed (db_conn (check_sequence st now symbol sn)) = map_option is_closed (db_conn st)"
    by (auto simp: check_sequence_def try_check_sequence_def Let_def
        split: option.splits outcome.splits)
qed

lemma try_check_sequence_first:
  "seq_nums st symbol = None \<Longrightarrow>
   try_check_sequence st now symbol sn = Done (st\<lparr>seq_nums := (seq_nums st)(symbol \<mapsto> sn)\<rparr>)"
  by (simp add: try_check_sequence_def)

lemma try_check_sequence_no_gap:
  "seq_nums st symbol = Some l \<Longrightarrow> sn \<le> l + 1 \<Longrightarrow>
   try_check_sequence st now symbol sn = Done (st\<lparr>seq_nums := (seq_nums st)(symbol \<mapsto> sn)\<rparr>)"
  by (simp add: try_check_sequence_def)

lemma check_sequence_first:
  "seq_nums st symbol = None \<Longrightarrow>
   check_sequence st now symbol sn = st\<lparr>seq_nums := (seq_nums st)(symbol \<mapsto> sn)\<rparr>"
  by (simp add: check_sequence_def try_check_sequence_first)

lemma check_sequence_no_gap:
  "seq_nums st symbol = Some l \<Longrightarrow> sn \<le> l + 1 \<Longrightarrow>
   check_sequence st now symbol sn = st\<lparr>seq_nums := (seq_nums st)(symbol \<mapsto> sn)\<rparr>"
  by (simp add: check_sequence_def try_check_sequence_no_gap)

lemma check_sequence_gap:
  "seq_nums st symbol = Some l \<Longrightarrow> l + 1 < sn \<Longrightarrow>
   missed_messages (check_sequence st now symbol sn) = missed_messages st + (sn - (l + 1)) \<and>
   gap_log (check_sequence st now symbol sn) = gap_log st @
     [\<lparr>ge_symbol = symbol, ge_gap_size = sn - (l + 1), ge_expected_seq = l + 1, ge_received_seq = sn\<rparr>]"
  by (simp add: check_sequence_def try_check_sequence_def Let_def split: option.splits outcome.splits)

lemma check_sequence_gap_returns:
  assumes "seq_nums st symbol = Some l" and "l + 1 < sn"
    and "db_conn st = None \<or>
         (fits_int64 now \<and> fits_int64 (sn - (l + 1)) \<and> fits_int64 (l + 1) \<and> fits_int64 sn)"
  shows "is_done (try_check_sequence st now symbol sn)"
  using assms
  by (auto simp: try_check_sequence_def try_record_sequence_gap_def Let_def split: option.splits)

lemma aggregate_unfold:
  "aggregate st symbol current_bid t =
     (let st1 = roll_minute st (minute_of t);
          st2 = st1\<lparr>gap_counts := ensure_counts (gap_counts st1) symbol\<rparr>
      in case count_gap st2 symbol current_bid of
           None \<Rightarrow> st2
         | Some st3 \<Rightarrow> st3\<lparr>prev_bids := (prev_bids st3)(symbol \<mapsto> current_bid)\<rparr>)"
  by (simp add: aggregate_def try_aggregate_def Let_def split: option.splits)

lemma sequence_step_state:
  "state_of (sequence_step st now symbol t) =
     (case seq_num t of Val sn \<Rightarrow> check_sequence st now symbol sn | _ \<Rightarrow> st)"
  by (simp add: sequence_step_def check_sequence_def split: fld.splits)

lemma process_tick_unfold:
  "process_tick st now symbol pl =
     (case pl of
        Undecodable \<Rightarrow> st
      | Decoded td \<Rightarrow>
          (case sequence_step st now symbol td of
             Raised e st1 \<Rightarrow> st1
           | Done st1 \<Rightarrow>
               (case bid td of
                  None \<Rightarrow> st1
                | Some current_bid \<Rightarrow>
                    (case time td of
                       Absent \<Rightarrow> st1\<lparr>prev_bids := (prev_bids st1)(symbol \<mapsto> current_bid)\<rparr>
                     | Raises \<Rightarrow> st1
                     | Val t \<Rightarrow> aggregate st1 symbol current_bid t))))"
  by (simp add: process_tick_def try_process_tick_def aggregate_def
      split: payload.splits outcome.splits option.splits fld.splits)

lemma sub_process_tick_unfold:
  "sub_process_tick st symbol pl =
     (case pl of
        Undecodable \<Rightarrow> st
      | Decoded td \<Rightarrow>
          (case bid td of
             None \<Rightarrow> st
           | Some current_bid \<Rightarrow>
               (case time td of
                  Raises \<Rightarrow> st
                | Absent \<Rightarrow>
                    st\<lparr>tick_data := (tick_data st)(symbol \<mapsto> td),
                       previous_bids := (previous_bids st)(symbol \<mapsto> current_bid)\<rparr>
                | Val t \<Rightarrow>
                    (let st1 = sub_roll_minute st (minute_of t);
                         st2 = st1\<lparr>sub_gap_counts := ensure_counts (sub_gap_counts st1) symbol\<rparr>
                     in case sub_count_gap st2 symbol current_bid of
                          None \<Rightarrow> st2
                        | Some st3 \<Rightarrow>
                            st3\<lparr>tick_data := (tick_data st3)(symbol \<mapsto> td),
                                previous_bids := (previous_bids st3)(symbol \<mapsto> current_bid)\<rparr>))))"
  by (simp add: sub_process_tick_def try_sub_process_tick_def Let_def
      split: payload.splits option.splits fld.splits)

lemma seq_checked_aggregation:
  "prev_bids (case sq of Val sn \<Rightarrow> check_sequence st now symbol sn | _ \<Rightarrow> st) = prev_bids st"
  "minute_start_time (case sq of Val sn \<Rightarrow> check_sequence st now symbol sn | _ \<Rightarrow> st) = minute_start_time st"
  "gap_counts (case sq of Val sn \<Rightarrow> check_sequence st now symbol sn | _ \<Rightarrow> st) = gap_counts st"
  by (simp_all add: check_sequence_aggregation split: fld.splits)

lemma seq_checked_db:
  "map_option tick_gaps (db_conn (case sq of Val sn \<Rightarrow> check_sequence st now symbol sn | _ \<Rightarrow> st)) =
     map_option tick_gaps (db_conn st)"
  "map_option is_closed (db_conn (case sq of Val sn \<Rightarrow> check_sequence st now symbol sn | _ \<Rightarrow> st)) =
     map_option is_closed (db_conn st)"
  by (simp_all add: check_sequence_tick_gaps split: fld.splits)

lemma sequence_step_returned:
  assumes "sequence_step st now symbol t = Done st1"
  shows "st1 = (case seq_num t of Val sn \<Rightarrow> check_sequence st now symbol sn | _ \<Rightarrow> st)"
    and "prev_bids st1 = prev_bids st"
    and "minute_start_time st1 = minute_start_time st"
    and "gap_counts st1 = gap_counts st"
    and "map_option tick_gaps (db_conn st1) = map_option tick_gaps (db_conn st)"
    and "map_option is_closed (db_conn st1) = map_option is_closed (db_conn st)"
    and "seq_num t \<noteq> Raises"
proof -
  show e: "st1 = (case seq_num t of Val sn \<Rightarrow> check_sequence st now symbol sn | _ \<Rightarrow> st)"
    using sequence_step_state [of st now symbol t] assms by simp
  show "prev_bids st1 = prev_bids st" "minute_start_time st1 = minute_start_time st"
    "gap_counts st1 = gap_counts st"
    unfolding e by (rule seq_checked_aggregation)+
  show "map_option tick_gaps (db_conn st1) = map_option tick_gaps (db_conn st)"
    "map_option is_closed (db_conn st1) = map_option is_closed (db_conn st)"
    unfolding e by (rule seq_checked_db)+
  show "seq_num t \<noteq> Raises"
    using assms by (auto simp: sequence_step_def)
qed

lemma process_tick_state:
  "process_tick st now symbol (Decoded t) =
     (let st1 = (case seq_num t of Val sn \<Rightarrow> check_sequence st now symbol sn | _ \<Rightarrow> st)
      in if \<not> is_done (sequence_step st now symbol t) then st1
         else case bid t of
                None \<Rightarrow> st1
              | Some b \<Rightarrow>
                  (case time t of
                     Absent \<Rightarrow> st1\<lparr>prev_bids := (prev_bids st1)(symbol \<mapsto> b)\<rparr>
                   | Raises \<Rightarrow> st1
                   | Val ts \<Rightarrow> aggregate st1 symbol b ts))"
  using sequence_step_state [of st now symbol t]
  by (cases "sequence_step st now symbol t") (simp_all add: process_tick_unfold Let_def)

lemma process_tick_undecodable: "process_tick st now symbol Undecodable = st"
  by (simp add: process_tick_unfold)

lemma process_tick_aborted:
  "sequence_step st now symbol t = Raised e st1 \<Longrightarrow> process_tick st now symbol (Decoded t) = st1"
  by (simp add: process_tick_unfold)

lemma process_tick_timed:
  "sequence_step st now symbol t = Done st1 \<Longrightarrow> bid t = Some b \<Longrightarrow> time t = Val ts \<Longrightarrow>
   process_tick st now symbol (Decoded t) = aggregate st1 symbol b ts"
  by (simp add: process_tick_unfold)

lemma process_tick_untimed:
  "sequence_step st now symbol t = Done st1 \<Longrightarrow> bid t = Some b \<Longrightarrow> time t = Absent \<Longrightarrow>
   process_tick st now symbol (Decoded t) = st1\<lparr>prev_bids := (prev_bids st)(symbol \<mapsto> b)\<rparr>"
  by (simp add: process_tick_unfold sequence_step_returned(2))

lemma sequence_step_absent:
  "seq_num t = Absent \<Longrightarrow> sequence_step st now symbol t = Done st"
  by (simp add: sequence_step_def)

lemma save_gap_counts_fields:
  "seq_nums (save_gap_counts st) = seq_nums st"
  "missed_messages (save_gap_counts st) = missed_messages st"
  "gap_log (save_gap_counts st) = gap_log st"
  "prev_bids (save_gap_counts st) = prev_bids st"
  "gap_counts (save_gap_counts st) = gap_counts st"
  "minute_start_time (save_gap_counts st) = minute_start_time st"
  by (simp_all add: save_gap_counts_def split: option.splits)

lemma roll_minute_fields:
  "seq_nums (roll_minute st m) = seq_nums st"
  "missed_messages (roll_minute st m) = missed_messages st"
  "gap_log (roll_minute st m) = gap_log st"
  "prev_bids (roll_minute st m) = prev_bids st"
  "minute_start_time (roll_minute st m) = Some m"
  by (simp_all add: roll_minute_def Let_def save_gap_counts_fields)

lemma count_gap_fields:
  "count_gap st symbol b = Some st' \<Longrightarrow>
   seq_nums st' = seq_nums st \<and> missed_messages st' = missed_messages st \<and>
   gap_log st' = gap_log st \<and> prev_bids st' = prev_bids st \<and>
   minute_start_time st' = minute_start_time st \<and> db_conn st' = db_conn st"
  by (auto simp: count_gap_def split: option.splits if_splits)

lemma aggregate_fields:
  "seq_nums (aggregate st symbol b t) = seq_nums st"
  "missed_messages (aggregate st symbol b t) = missed_messages st"
  "gap_log (aggregate st symbol b t) = gap_log st"
  by (auto simp: aggregate_unfold Let_def roll_minute_fields split: option.splits dest!: count_gap_fields)

lemma try_process_tick_raises:
  "try_process_tick st now symbol Undecodable = Raised DecodeError st"
  "seq_num t = Raises \<Longrightarrow> try_process_tick st now symbol (Decoded t) = Raised ConversionError st"
  "sequence_step st now symbol t = Done st1 \<Longrightarrow> bid t = Some b \<Longrightarrow> time t = Raises \<Longrightarrow>
   try_process_tick st now symbol (Decoded t) = Raised ConversionError st1"
  "sequence_step st now symbol t = Done st1 \<Longrightarrow> bid t = Some b \<Longrightarrow> time t = Val ts \<Longrightarrow>
   prev_bids st symbol = Some p \<Longrightarrow> gap_pips symbol b p = None \<Longrightarrow>
   try_process_tick st now symbol (Decoded t) =
     Raised OperandError
       ((roll_minute st1 (minute_of ts))
          \<lparr>gap_counts := ensure_counts (gap_counts (roll_minute st1 (minute_of ts))) symbol\<rparr>)"
  by (simp_all add: try_process_tick_def sequence_step_def try_aggregate_def Let_def count_gap_def
      roll_minute_fields sequence_step_returned(2))

lemma process_tick_sequence_state:
  "seq_nums (process_tick st now symbol (Decoded t)) =
     seq_nums (case seq_num t of Val sn \<Rightarrow> check_sequence st now symbol sn | _ \<Rightarrow> st)"
  "missed_messages (process_tick st now symbol (Decoded t)) =
     missed_messages (case seq_num t of Val sn \<Rightarrow> check_sequence st now symbol sn | _ \<Rightarrow> st)"
  "gap_log (process_tick st now symbol (Decoded t)) =
     gap_log (case seq_num t of Val sn \<Rightarrow> check_sequence st now symbol sn | _ \<Rightarrow> st)"
  by (simp_all add: process_tick_state Let_def aggregate_fields split: fld.splits option.splits)

subsection \<open>Sequence gaps\<close>

text \<open>
  C2. The ticks of one symbol with no last-seen value carry the sequence numbers 1, 2
  and 5, whatever else they carry. The first two add no gap event. The third adds
  exactly one, with expected 3 and received 5; its size is \<open>5 - 3 = 2\<close>, the two
  numbers 3 and 4 that never arrived, and the counter of missed messages grows by 2.
  In general a first sighting and a number equal to the last-seen one plus 1 add no gap
  event and leave the counter alone.
\<close>

theorem seq_1_2_5_one_gap_event:
  assumes "seq_nums st x = None"
    and "seq_num t1 = Val 1" and "seq_num t2 = Val 2" and "seq_num t3 = Val 5"
  shows "gap_log (process_all st [(n1, x, Decoded t1)]) = gap_log st \<and>
         gap_log (process_all st [(n1, x, Decoded t1), (n2, x, Decoded t2)]) = gap_log st \<and>
         gap_log (process_all st [(n1, x, Decoded t1), (n2, x, Decoded t2), (n3, x, Decoded t3)]) =
           gap_log st @ [\<lparr>ge_symbol = x, ge_gap_size = 2, ge_expected_seq = 3, ge_received_seq = 5\<rparr>] \<and>
         missed_messages (process_all st [(n1, x, Decoded t1), (n2, x, Decoded t2), (n3, x, Decoded t3)]) =
           missed_messages st + 2 \<and>
         ((seq_nums s y = None \<or> seq_nums s y = Some (n - 1)) \<longrightarrow>
            gap_log (check_sequence s now y n) = gap_log s \<and>
            missed_messages (check_sequence s now y n) = missed_messages s)"
proof -
  let ?s1 = "process_tick st n1 x (Decoded t1)"
  let ?s2 = "process_tick ?s1 n2 x (Decoded t2)"
  let ?s3 = "process_tick ?s2 n3 x (Decoded t3)"
  have a1: "seq_nums ?s1 x = Some 1" "gap_log ?s1 = gap_log st" "missed_messages ?s1 = missed_messages st"
    using assms(1,2) by (simp_all add: process_tick_sequence_state check_sequence_first)
  have a2: "seq_nums ?s2 x = Some 2" "gap_log ?s2 = gap_log st" "missed_messages ?s2 = missed_messages st"
    using a1 assms(3)
    by (simp_all add: process_tick_sequence_state check_sequence_no_gap [where l = 1])
  have a3: "gap_log ?s3 = gap_log st @ [\<lparr>ge_symbol = x, ge_gap_size = 2, ge_expected_seq = 3, ge_received_seq = 5\<rparr>]"
    "missed_messages ?s3 = missed_messages st + 2"
    using a2 assms(4) check_sequence_gap [of ?s2 x 2 5 n3]
    by (simp_all add: process_tick_sequence_state)
  have g: "(seq_nums s y = None \<or> seq_nums s y = Some (n - 1)) \<longrightarrow>
            gap_log (check_sequence s now y n) = gap_log s \<and>
            missed_messages (check_sequence s now y n) = missed_messages s"
    by (auto simp: check_sequence_first check_sequence_no_gap)
  show ?thesis using a1 a2 a3 g by simp
qed

theorem seq_1_2_5_one_gap_event_witness:
  "gap_log (process_all (init True 10000)
       [(100, ''EURUSD'', Decoded \<lparr>seq_num = Val 1, bid = None, time = Absent\<rparr>),
        (100, ''EURUSD'', Decoded \<lparr>seq_num = Val 2, bid = None, time = Absent\<rparr>),
        (101, ''EURUSD'', Decoded \<lparr>seq_num = Val 5, bid = None, time = Absent\<rparr>)]) =
     [\<lparr>ge_symbol = ''EURUSD'', ge_gap_size = 2, ge_expected_seq = 3, ge_received_seq = 5\<rparr>] \<and>
   missed_messages (process_all (init True 10000)
       [(100, ''EURUSD'', Decoded \<lparr>seq_num = Val 1, bid = None, time = Absent\<rparr>),
        (100, ''EURUSD'', Decoded \<lparr>seq_num = Val 2, bid = None, time = Absent\<rparr>),
        (101, ''EURUSD'', Decoded \<lparr>seq_num = Val 5, bid = None, time = Absent\<rparr>)]) = 2 \<and>
   gap_log (check_sequence (init True 10000) 100 ''EURUSD'' 7) = []"
  using seq_1_2_5_one_gap_event [of "init True 10000" "''EURUSD''"
      "\<lparr>seq_num = Val 1, bid = None, time = Absent\<rparr>"
      "\<lparr>seq_num = Val 2, bid = None, time = Absent\<rparr>"
      "\<lparr>seq_num = Val 5, bid = None, time = Absent\<rparr>" 100 100 101
      "init True 10000" "''EURUSD''" 7 100]
  by (simp add: init_def)

theorem seq_1_2_5_gap_size_counterexample:
  "ge_gap_size (last (gap_log (process_all (init True 10000)
       [(100, ''EURUSD'', Decoded \<lparr>seq_num = Val 1, bid = None, time = Absent\<rparr>),
        (100, ''EURUSD'', Decoded \<lparr>seq_num = Val 2, bid = None, time = Absent\<rparr>),
        (101, ''EURUSD'', Decoded \<lparr>seq_num = Val 5, bid = None, time = Absent\<rparr>)]))) \<noteq> 3 \<and>
   missed_messages (process_all (init True 10000)
       [(100, ''EURUSD'', Decoded \<lparr>seq_num = Val 1, bid = None, time = Absent\<rparr>),
        (100, ''EURUSD'', Decoded \<lparr>seq_num = Val 2, bid = None, time = Absent\<rparr>),
        (101, ''EURUSD'', Decoded \<lparr>seq_num = Val 5, bid = None, time = Absent\<rparr>)]) \<noteq>
     missed_messages (init True 10000) + 3"
  by (simp add: init_def process_tick_unfold sequence_step_def try_check_sequence_def)

lemma try_check_sequence_is_done:
  "is_done (try_check_sequence st now symbol sn) \<longleftrightarrow>
     (case seq_nums st symbol of
        None \<Rightarrow> True
      | Some l \<Rightarrow>
          sn \<le> l + 1 \<or>
          (case db_conn st of
             None \<Rightarrow> True
           | Some db \<Rightarrow>
               is_closed db \<or>
               (fits_int64 now \<and> fits_int64 (sn - (l + 1)) \<and> fits_int64 (l + 1) \<and> fits_int64 sn)))"
  by (auto simp: try_check_sequence_def try_record_sequence_gap_def Let_def split: option.splits)

lemma sequence_step_is_done:
  "is_done (sequence_step st now symbol t) \<longleftrightarrow>
     (case seq_num t of
        Absent \<Rightarrow> True
      | Raises \<Rightarrow> False
      | Val sn \<Rightarrow> is_done (try_check_sequence st now symbol sn))"
  by (simp add: sequence_step_def split: fld.splits)

text \<open>
  C6. The assignment of the last-seen value is the last line of the sequence check and
  is reached only when the lines before it return. With a last-seen value of 1 and an
  open database, the number \<open>2\<^sup>6\<^sup>3 = 9223372036854775808\<close> is a gap whose INSERT
  raises OverflowError when the number is bound. The exception leaves the check and the
  processing of the tick: the counter of missed messages and the console have the gap,
  the table has no row, the last-seen value is still 1 and the bid of the tick is not
  stored. Without a database, on a closed connection and for the number \<open>2\<^sup>6\<^sup>3 - 1\<close>
  the same call returns and stores the number, and so does a call whose INSERT meets a
  primary key in use.
\<close>

theorem last_seen_kept_when_insert_overflows:
  "try_check_sequence
     ((init_database (init True 10000) (Some empty_database))\<lparr>seq_nums := [''EURUSD'' \<mapsto> 1]\<rparr>)
     101 ''EURUSD'' 9223372036854775808 =
     Raised OverflowError
       ((init_database (init True 10000) (Some empty_database))
          \<lparr>seq_nums := [''EURUSD'' \<mapsto> 1],
           missed_messages := 9223372036854775806,
           gap_log := [\<lparr>ge_symbol = ''EURUSD'', ge_gap_size = 9223372036854775806,
                        ge_expected_seq = 2, ge_received_seq = 9223372036854775808\<rparr>]\<rparr>) \<and>
   seq_nums (process_all (init_database (init True 10000) (Some empty_database))
       [(100, ''EURUSD'', Decoded \<lparr>seq_num = Val 1, bid = None, time = Absent\<rparr>),
        (101, ''EURUSD'', Decoded \<lparr>seq_num = Val 9223372036854775808,
                                    bid = Some (JFloat (Finite (3 / 2))), time = Absent\<rparr>)])
     ''EURUSD'' = Some 1 \<and>
   prev_bids (process_all (init_database (init True 10000) (Some empty_database))
       [(100, ''EURUSD'', Decoded \<lparr>seq_num = Val 1, bid = None, time = Absent\<rparr>),
        (101, ''EURUSD'', Decoded \<lparr>seq_num = Val 9223372036854775808,
                                    bid = Some (JFloat (Finite (3 / 2))), time = Absent\<rparr>)])
     ''EURUSD'' = None \<and>
   map_option sequence_gaps (db_conn (process_all (init_database (init True 10000) (Some empty_database))
       [(100, ''EURUSD'', Decoded \<lparr>seq_num = Val 1, bid = None, time = Absent\<rparr>),
        (101, ''EURUSD'', Decoded \<lparr>seq_num = Val 9223372036854775808,
                                    bid = Some (JFloat (Finite (3 / 2))), time = Absent\<rparr>)])) = Some [] \<and>
   seq_nums (process_all (init True 10000)
       [(100, ''EURUSD'', Decoded \<lparr>seq_num = Val 1, bid = None, time = Absent\<rparr>),
        (101, ''EURUSD'', Decoded \<lparr>seq_num = Val 9223372036854775808,
                                    bid = Some (JFloat (Finite (3 / 2))), time = Absent\<rparr>)])
     ''EURUSD'' = Some 9223372036854775808 \<and>
   seq_nums (process_all (init_database (init True 10000) (Some empty_database))
       [(100, ''EURUSD'', Decoded \<lparr>seq_num = Val 1, bid = None, time = Absent\<rparr>),
        (101, ''EURUSD'', Decoded \<lparr>seq_num = Val 9223372036854775807,
                                    bid = Some (JFloat (Finite (3 / 2))), time = Absent\<rparr>)])
     ''EURUSD'' = Some 9223372036854775807 \<and>
   map_option sequence_gaps (db_conn (process_all (init_database (init True 10000) (Some empty_database))
       [(100, ''EURUSD'', Decoded \<lparr>seq_num = Val 1, bid = None, time = Absent\<rparr>),
        (101, ''EURUSD'', Decoded \<lparr>seq_num = Val 9223372036854775807,
                                    bid = Some (JFloat (Finite (3 / 2))), time = Absent\<rparr>)])) =
     Some [\<lparr>sg_timestamp = 101, sg_symbol = ''EURUSD'', sg_gap_size = 9223372036854775805,
            sg_expected_seq = 2, sg_received_seq = 9223372036854775807\<rparr>] \<and>
   seq_nums (process_all
       (init_database (init True 10000) (Some (empty_database\<lparr>is_closed := True\<rparr>)))
       [(100, ''EURUSD'', Decoded \<lparr>seq_num = Val 1, bid = None, time = Absent\<rparr>),
        (101, ''EURUSD'', Decoded \<lparr>seq_num = Val 9223372036854775808,
                                    bid = Some (JFloat (Finite (3 / 2))), time = Absent\<rparr>)])
     ''EURUSD'' = Some 9223372036854775808 \<and>
   seq_nums (process_all (init_database (init True 10000) (Some empty_database))
       [(100, ''EURUSD'', Decoded \<lparr>seq_num = Val 1, bid = None, time = Absent\<rparr>),
        (101, ''EURUSD'', Decoded \<lparr>seq_num = Val 5, bid = None, time = Absent\<rparr>),
        (101, ''EURUSD'', Decoded \<lparr>seq_num = Val 1, bid = None, time = Absent\<rparr>),
        (101, ''EURUSD'', Decoded \<lparr>seq_num = Val 5, bid = None, time = Absent\<rparr>)])
     ''EURUSD'' = Some 5 \<and>
   map_option sequence_gaps (db_conn (process_all (init_database (init True 10000) (Some empty_database))
       [(100, ''EURUSD'', Decoded \<lparr>seq_num = Val 1, bid = None, time = Absent\<rparr>),
        (101, ''EURUSD'', Decoded \<lparr>seq_num = Val 5, bid = None, time = Absent\<rparr>),
        (101, ''EURUSD'', Decoded \<lparr>seq_num = Val 1, bid = None, time = Absent\<rparr>),
        (101, ''EURUSD'', Decoded \<lparr>seq_num = Val 5, bid = None, time = Absent\<rparr>)])) =
     Some [\<lparr>sg_timestamp = 101, sg_symbol = ''EURUSD'', sg_gap_size = 3,
            sg_expected_seq = 2, sg_received_seq = 5\<rparr>] \<and>
   fits_int64 9223372036854775807 \<and> \<not> fits_int64 9223372036854775808 \<and>
   fits_int64 (- 9223372036854775808) \<and> \<not> fits_int64 (- 9223372036854775809)"
  by (simp add: init_def init_database_def empty_database_def process_tick_unfold sequence_step_def
      try_check_sequence_def try_record_sequence_gap_def fits_int64_def insert_row_def
      sequence_gap_key_def)

lemma consecutive_follows: "consecutive (a # r) = follows (Some a) r"
  by (induction r arbitrary: a) auto

lemma follows_None: "follows None ns = consecutive ns"
  by (cases ns) (simp_all add: consecutive_follows)

lemma of_symbol_simps:
  "of_symbol s [] = []"
  "of_symbol s ((k, n) # xs) = (if k = s then n # of_symbol s xs else of_symbol s xs)"
  by (simp_all add: of_symbol_def)

lemma of_symbol_absent: "s \<notin> set (map fst xs) \<Longrightarrow> of_symbol s xs = []"
  by (induction xs) (auto simp: of_symbol_simps)

lemma check_sequence_follows:
  assumes "\<forall>s. follows (seq_nums st s) (of_symbol s ((symbol, sn) # xs))"
  shows "missed_messages (check_sequence st now symbol sn) = missed_messages st \<and>
         (\<forall>s. follows (seq_nums (check_sequence st now symbol sn) s) (of_symbol s xs))"
proof (cases "seq_nums st symbol")
  case None
  then have "check_sequence st now symbol sn = st\<lparr>seq_nums := (seq_nums st)(symbol \<mapsto> sn)\<rparr>"
    by (rule check_sequence_first)
  moreover have "follows (Some sn) (of_symbol symbol xs)"
    using assms [rule_format, of symbol] None by (simp add: of_symbol_simps)
  moreover have "s \<noteq> symbol \<Longrightarrow> follows (seq_nums st s) (of_symbol s xs)" for s
    using assms [rule_format, of s] by (simp add: of_symbol_simps)
  ultimately show ?thesis by simp
next
  case (Some l)
  have f: "sn = l + 1 \<and> follows (Some sn) (of_symbol symbol xs)"
    using assms [rule_format, of symbol] Some by (auto simp: of_symbol_simps)
  have "check_sequence st now symbol sn = st\<lparr>seq_nums := (seq_nums st)(symbol \<mapsto> sn)\<rparr>"
    by (rule check_sequence_no_gap [OF Some]) (simp add: f)
  moreover have "s \<noteq> symbol \<Longrightarrow> follows (seq_nums st s) (of_symbol s xs)" for s
    using assms [rule_format, of s] by (simp add: of_symbol_simps)
  ultimately show ?thesis using f by auto
qed

lemma process_all_follows:
  "\<forall>s. follows (seq_nums st s) (of_symbol s (seq_of ticks)) \<Longrightarrow>
   missed_messages (process_all st ticks) = missed_messages st"
proof (induction st ticks rule: process_all.induct)
  case (1 st)
  then show ?case by simp
next
  case (2 st now symbol pl rest)
  show ?case
  proof (cases pl)
    case Undecodable
    then show ?thesis using 2 by (simp add: process_tick_unfold)
  next
    case (Decoded t)
    show ?thesis
    proof (cases "seq_num t")
      case (Val sn)
      have "missed_messages (check_sequence st now symbol sn) = missed_messages st \<and>
         (\<forall>s. follows (seq_nums (check_sequence st now symbol sn) s) (of_symbol s (seq_of rest)))"
        using 2(2) Decoded Val by (intro check_sequence_follows) simp
      then have "missed_messages (process_tick st now symbol pl) = missed_messages st \<and>
         (\<forall>s. follows (seq_nums (process_tick st now symbol pl) s) (of_symbol s (seq_of rest)))"
        using Decoded Val by (simp add: process_tick_sequence_state)
      then show ?thesis using 2(1) by simp
    next
      case Absent
      then have "missed_messages (process_tick st now symbol pl) = missed_messages st \<and>
         (\<forall>s. follows (seq_nums (process_tick st now symbol pl) s) (of_symbol s (seq_of rest)))"
        using 2(2) Decoded by (simp add: process_tick_sequence_state)
      then show ?thesis using 2(1) by simp
    next
      case Raises
      then have "missed_messages (process_tick st now symbol pl) = missed_messages st \<and>
         (\<forall>s. follows (seq_nums (process_tick st now symbol pl) s) (of_symbol s (seq_of rest)))"
        using 2(2) Decoded by (simp add: process_tick_sequence_state)
      then show ?thesis using 2(1) by simp
    qed
  qed
qed

text \<open>
  C3. When the sequence numbers of every symbol are consecutive, each one more than
  the one before it for that symbol, a receiver that starts with no last-seen value for
  these symbols and a counter of 0 ends with a counter of 0.
\<close>

theorem consecutive_no_missed:
  assumes "consecutive_per_symbol (seq_of ticks)"
    and "\<forall>s \<in> set (map fst (seq_of ticks)). seq_nums st s = None"
    and "missed_messages st = 0"
  shows "missed_messages (process_all st ticks) = 0"
proof -
  have "follows (seq_nums st s) (of_symbol s (seq_of ticks))" for s
  proof (cases "s \<in> set (map fst (seq_of ticks))")
    case True
    then have "seq_nums st s = None" and "consecutive (of_symbol s (seq_of ticks))"
      using assms(1,2) unfolding consecutive_per_symbol_def by blast+
    then show ?thesis by (simp add: follows_None)
  next
    case False
    then show ?thesis by (simp add: of_symbol_absent)
  qed
  then show ?thesis using process_all_follows [of st ticks] assms(3) by simp
qed

theorem consecutive_no_missed_witness:
  "consecutive_per_symbol (seq_of
     [(100, ''EURUSD'', Decoded \<lparr>seq_num = Val 1, bid = None, time = Absent\<rparr>),
      (100, ''USDJPY'', Decoded \<lparr>seq_num = Val 7, bid = None, time = Absent\<rparr>),
      (101, ''EURUSD'', Decoded \<lparr>seq_num = Val 2, bid = None, time = Absent\<rparr>),
      (101, ''USDJPY'', Decoded \<lparr>seq_num = Val 8, bid = None, time = Absent\<rparr>)]) \<and>
   missed_messages (process_all (init True 10000)
     [(100, ''EURUSD'', Decoded \<lparr>seq_num = Val 1, bid = None, time = Absent\<rparr>),
      (100, ''USDJPY'', Decoded \<lparr>seq_num = Val 7, bid = None, time = Absent\<rparr>),
      (101, ''EURUSD'', Decoded \<lparr>seq_num = Val 2, bid = None, time = Absent\<rparr>),
      (101, ''USDJPY'', Decoded \<lparr>seq_num = Val 8, bid = None, time = Absent\<rparr>)]) = 0"
proof -
  let ?ticks = "[(100, ''EURUSD'', Decoded \<lparr>seq_num = Val 1, bid = None, time = Absent\<rparr>),
      (100, ''USDJPY'', Decoded \<lparr>seq_num = Val 7, bid = None, time = Absent\<rparr>),
      (101, ''EURUSD'', Decoded \<lparr>seq_num = Val 2, bid = None, time = Absent\<rparr>),
      (101, ''USDJPY'', Decoded \<lparr>seq_num = Val 8, bid = None, time = Absent\<rparr>)]"
  have c: "consecutive_per_symbol (seq_of ?ticks)"
    by (simp add: consecutive_per_symbol_def of_symbol_def)
  have n: "\<forall>s \<in> set (map fst (seq_of ?ticks)). seq_nums (init True 10000) s = None"
    by (simp add: init_def)
  have m: "missed_messages (init True 10000) = 0"
    by (simp add: init_def)
  show ?thesis using c consecutive_no_missed [OF c n m] by simp
qed

theorem strictly_increasing_counterexample:
  "strictly_increasing_per_symbol (seq_of
     [(100, ''EURUSD'', Decoded \<lparr>seq_num = Val 1, bid = None, time = Absent\<rparr>),
      (100, ''EURUSD'', Decoded \<lparr>seq_num = Val 2, bid = None, time = Absent\<rparr>),
      (101, ''EURUSD'', Decoded \<lparr>seq_num = Val 5, bid = None, time = Absent\<rparr>)]) \<and>
   missed_messages (init True 10000) = 0 \<and>
   missed_messages (process_all (init True 10000)
     [(100, ''EURUSD'', Decoded \<lparr>seq_num = Val 1, bid = None, time = Absent\<rparr>),
      (100, ''EURUSD'', Decoded \<lparr>seq_num = Val 2, bid = None, time = Absent\<rparr>),
      (101, ''EURUSD'', Decoded \<lparr>seq_num = Val 5, bid = None, time = Absent\<rparr>)]) = 2"
  by (simp add: strictly_increasing_per_symbol_def of_symbol_def init_def process_tick_unfold
      sequence_step_def try_check_sequence_def)

subsection \<open>Ticks without a bid\<close>

lemma process_tick_no_bid:
  "bid t = None \<Longrightarrow>
   process_tick st now symbol (Decoded t) =
     (case seq_num t of Val sn \<Rightarrow> check_sequence st now symbol sn | _ \<Rightarrow> st)"
  by (simp add: process_tick_state Let_def)

text \<open>
  C7. A tick without a bid (the key is missing or \<^verbatim>\<open>null\<close>) leaves the aggregation
  state as it was: the previous bids, the open minute, its buckets and the rows of
  \<open>tick_gaps\<close>. The sequence check has run before the bid is looked at, so the tick
  is processed exactly as its sequence number alone: the attributes are those the
  sequence check leaves, with the number as the last-seen value when the check returned,
  and without a sequence number nothing changes at all.
\<close>

theorem missing_bid_keeps_aggregation:
  assumes "bid t = None"
  shows "prev_bids (process_tick st now symbol (Decoded t)) = prev_bids st \<and>
         minute_start_time (process_tick st now symbol (Decoded t)) = minute_start_time st \<and>
         gap_counts (process_tick st now symbol (Decoded t)) = gap_counts st \<and>
         map_option tick_gaps (db_conn (process_tick st now symbol (Decoded t))) =
           map_option tick_gaps (db_conn st) \<and>
         process_tick st now symbol (Decoded t) =
           (case seq_num t of Val sn \<Rightarrow> check_sequence st now symbol sn | _ \<Rightarrow> st) \<and>
         (seq_num t = Val n \<and> try_check_sequence st now symbol n = Done st' \<longrightarrow>
            process_tick st now symbol (Decoded t) = st' \<and>
            seq_nums st' = (seq_nums st)(symbol \<mapsto> n))"
  using assms check_sequence_returned [of st now symbol n st']
  by (simp add: process_tick_no_bid check_sequence_aggregation check_sequence_tick_gaps
      split: fld.splits)

theorem missing_bid_keeps_aggregation_witness:
  "bid \<lparr>seq_num = Val 5, bid = None, time = Val 43259\<rparr> = None \<and>
   gap_counts (process_tick ((init True 10000)\<lparr>gap_counts := [(''EURUSD'', \<lparr>large = 1, small = 2\<rparr>)],
        minute_start_time := Some 43200, prev_bids := [''EURUSD'' \<mapsto> JInt 1]\<rparr>) 100 ''EURUSD''
     (Decoded \<lparr>seq_num = Val 5, bid = None, time = Val 43259\<rparr>)) =
     [(''EURUSD'', \<lparr>large = 1, small = 2\<rparr>)] \<and>
   prev_bids (process_tick ((init True 10000)\<lparr>gap_counts := [(''EURUSD'', \<lparr>large = 1, small = 2\<rparr>)],
        minute_start_time := Some 43200, prev_bids := [''EURUSD'' \<mapsto> JInt 1]\<rparr>) 100 ''EURUSD''
     (Decoded \<lparr>seq_num = Val 5, bid = None, time = Val 43259\<rparr>)) ''EURUSD'' = Some (JInt 1) \<and>
   seq_nums (process_tick ((init True 10000)\<lparr>gap_counts := [(''EURUSD'', \<lparr>large = 1, small = 2\<rparr>)],
        minute_start_time := Some 43200, prev_bids := [''EURUSD'' \<mapsto> JInt 1]\<rparr>) 100 ''EURUSD''
     (Decoded \<lparr>seq_num = Val 5, bid = None, time = Val 43259\<rparr>)) ''EURUSD'' = Some 5"
proof -
  let ?st = "(init True 10000)\<lparr>gap_counts := [(''EURUSD'', \<lparr>large = 1, small = 2\<rparr>)],
        minute_start_time := Some 43200, prev_bids := [''EURUSD'' \<mapsto> JInt 1]\<rparr>"
  let ?t = "\<lparr>seq_num = Val 5, bid = None, time = Val 43259\<rparr>"
  have d: "try_check_sequence ?st 100 ''EURUSD'' 5 = Done (?st\<lparr>seq_nums := (seq_nums ?st)(''EURUSD'' \<mapsto> 5)\<rparr>)"
    by (simp add: try_check_sequence_def init_def)
  have b: "bid ?t = None" by simp
  note T = missing_bid_keeps_aggregation [OF b, of ?st 100 "''EURUSD''" 5
      "?st\<lparr>seq_nums := (seq_nums ?st)(''EURUSD'' \<mapsto> 5)\<rparr>"]
  have "seq_num ?t = Val 5 \<and>
      try_check_sequence ?st 100 ''EURUSD'' 5 = Done (?st\<lparr>seq_nums := (seq_nums ?st)(''EURUSD'' \<mapsto> 5)\<rparr>)"
    using d by simp
  then have "process_tick ?st 100 ''EURUSD'' (Decoded ?t) = ?st\<lparr>seq_nums := (seq_nums ?st)(''EURUSD'' \<mapsto> 5)\<rparr>"
    using T by blast
  then show ?thesis by simp
qed

theorem missing_bid_counterexample:
  "bid \<lparr>seq_num = Val 5, bid = None, time = Val 43259\<rparr> = None \<and>
   seq_nums (check_sequence (init True 10000) 100 ''EURUSD'' 1) ''EURUSD'' = Some 1 \<and>
   missed_messages (check_sequence (init True 10000) 100 ''EURUSD'' 1) = 0 \<and>
   gap_log (check_sequence (init True 10000) 100 ''EURUSD'' 1) = [] \<and>
   seq_nums (process_tick (check_sequence (init True 10000) 100 ''EURUSD'' 1) 101 ''EURUSD''
     (Decoded \<lparr>seq_num = Val 5, bid = None, time = Val 43259\<rparr>)) ''EURUSD'' = Some 5 \<and>
   missed_messages (process_tick (check_sequence (init True 10000) 100 ''EURUSD'' 1) 101 ''EURUSD''
     (Decoded \<lparr>seq_num = Val 5, bid = None, time = Val 43259\<rparr>)) = 3 \<and>
   gap_log (process_tick (check_sequence (init True 10000) 100 ''EURUSD'' 1) 101 ''EURUSD''
     (Decoded \<lparr>seq_num = Val 5, bid = None, time = Val 43259\<rparr>)) =
     [\<lparr>ge_symbol = ''EURUSD'', ge_gap_size = 3, ge_expected_seq = 2, ge_received_seq = 5\<rparr>] \<and>
   as_number (JStr ''n/a'') = None \<and>
   minute_start_time (init True 10000) = None \<and>
   minute_start_time (process_tick (init True 10000) 100 ''EURUSD''
     (Decoded \<lparr>seq_num = Absent, bid = Some (JStr ''n/a''), time = Val 43259\<rparr>)) = Some 43200 \<and>
   gap_counts (process_tick (init True 10000) 100 ''EURUSD''
     (Decoded \<lparr>seq_num = Absent, bid = Some (JStr ''n/a''), time = Val 43259\<rparr>)) =
     [(''EURUSD'', \<lparr>large = 0, small = 0\<rparr>)] \<and>
   prev_bids (process_tick (init True 10000) 100 ''EURUSD''
     (Decoded \<lparr>seq_num = Absent, bid = Some (JStr ''n/a''), time = Val 43259\<rparr>)) ''EURUSD'' =
     Some (JStr ''n/a'')"
  by (simp add: init_def process_tick_unfold sequence_step_def check_sequence_def try_check_sequence_def
      aggregate_unfold roll_minute_def ensure_counts_def count_gap_def minute_of_def)

subsection \<open>The full queue\<close>

lemma check_sequence_missed_mono:
  "missed_messages st \<le> missed_messages (check_sequence st now symbol sn)"
  by (simp add: check_sequence_def try_check_sequence_def Let_def split: option.splits outcome.splits)

lemma count_gap_counters:
  "count_gap st symbol b = Some st' \<Longrightarrow>
   receive_count st' = receive_count st \<and> process_count st' = process_count st \<and>
   message_queue st' = message_queue st"
  by (auto simp: count_gap_def split: option.splits if_splits)

lemma aggregate_counters:
  "receive_count (aggregate st symbol b t) = receive_count st"
  "process_count (aggregate st symbol b t) = process_count st"
  "message_queue (aggregate st symbol b t) = message_queue st"
  by (auto simp: aggregate_unfold Let_def roll_minute_def save_gap_counts_def
      split: option.splits dest!: count_gap_counters)

lemma process_tick_decoded_counters:
  "receive_count (process_tick st now symbol (Decoded t)) = receive_count st"
  "process_count (process_tick st now symbol (Decoded t)) = process_count st"
  "message_queue (process_tick st now symbol (Decoded t)) = message_queue st"
  "missed_messages st \<le> missed_messages (process_tick st now symbol (Decoded t))"
  by (simp_all add: process_tick_state Let_def aggregate_counters aggregate_fields
      check_sequence_aggregation check_sequence_missed_mono split: fld.splits option.splits)

lemma process_tick_counters:
  "receive_count (process_tick st now symbol pl) = receive_count st"
  "process_count (process_tick st now symbol pl) = process_count st"
  "message_queue (process_tick st now symbol pl) = message_queue st"
  "missed_messages st \<le> missed_messages (process_tick st now symbol pl)"
  by (cases pl; simp add: process_tick_decoded_counters process_tick_undecodable)+

lemma process_message_counters:
  "receive_count (process_message loads st now message) = receive_count st"
  "process_count st \<le> process_count (process_message loads st now message)"
  "missed_messages st \<le> missed_messages (process_message loads st now message)"
  by (simp_all add: process_message_def Let_def process_tick_counters split: list.splits)

lemma process_next_counters:
  "receive_count (process_next loads st now) = receive_count st"
  "process_count st \<le> process_count (process_next loads st now)"
  "missed_messages st \<le> missed_messages (process_next loads st now)"
proof -
  show "receive_count (process_next loads st now) = receive_count st"
    by (simp add: process_next_def process_message_counters split: list.splits)
  show "process_count st \<le> process_count (process_next loads st now)"
  proof (cases "message_queue st")
    case Nil
    then show ?thesis by (simp add: process_next_def)
  next
    case (Cons m q)
    then show ?thesis
      using process_message_counters(2) [of "st\<lparr>message_queue := q\<rparr>" loads now m]
      by (simp add: process_next_def)
  qed
  show "missed_messages st \<le> missed_messages (process_next loads st now)"
  proof (cases "message_queue st")
    case Nil
    then show ?thesis by (simp add: process_next_def)
  next
    case (Cons m q)
    then show ?thesis
      using process_message_counters(3) [of "st\<lparr>message_queue := q\<rparr>" loads now m]
      by (simp add: process_next_def)
  qed
qed

text \<open>
  C8. When the queue is full the message is dropped: the enqueue changes no attribute,
  so no counter records the drop. The whole receive step has counted the message in
  \<open>receive_count\<close> before the enqueue, as it does for a message it keeps. The receiver
  goes on: the step returns a state for every message. The reporter prints
  \<open>receive_count\<close>, \<open>process_count\<close>, the queue size and \<open>missed_messages\<close>, and none of
  the three counters ever decreases in a receive step or a processing step.
\<close>

theorem full_queue_drops_without_counter:
  "(queue_full st \<longrightarrow>
      enqueue st message = st \<and>
      receive_message st message = st\<lparr>receive_count := receive_count st + 1\<rparr> \<and>
      stats_report (receive_message st message) =
        (receive_count st + 1, process_count st, int (length (message_queue st)), missed_messages st)) \<and>
   receive_count (receive_message st message) = receive_count st + 1 \<and>
   process_count (receive_message st message) = process_count st \<and>
   missed_messages (receive_message st message) = missed_messages st \<and>
   receive_count (process_next loads st now) = receive_count st \<and>
   process_count st \<le> process_count (process_next loads st now) \<and>
   missed_messages st \<le> missed_messages (process_next loads st now)"
  by (simp add: enqueue_def receive_message_def queue_full_def stats_report_def
      process_next_counters)

theorem full_queue_drops_without_counter_witness:
  "queue_full ((init True 1)\<lparr>message_queue := [''TICK|EURUSD|{}'']\<rparr>) \<and>
   message_queue (receive_message ((init True 1)\<lparr>message_queue := [''TICK|EURUSD|{}'']\<rparr>) ''TICK|USDJPY|{}'') =
     [''TICK|EURUSD|{}''] \<and>
   stats_report (receive_message ((init True 1)\<lparr>message_queue := [''TICK|EURUSD|{}'']\<rparr>) ''TICK|USDJPY|{}'') =
     (1, 0, 1, 0)"
  using full_queue_drops_without_counter [of "(init True 1)\<lparr>message_queue := [''TICK|EURUSD|{}'']\<rparr>" "''TICK|USDJPY|{}''"]
  by (simp add: init_def queue_full_def stats_report_def)

theorem drop_counter_counterexample:
  "queue_full ((init True 1)\<lparr>message_queue := [''TICK|EURUSD|{}'']\<rparr>) \<and>
   enqueue ((init True 1)\<lparr>message_queue := [''TICK|EURUSD|{}'']\<rparr>) ''TICK|USDJPY|{}'' =
     (init True 1)\<lparr>message_queue := [''TICK|EURUSD|{}'']\<rparr> \<and>
   receive_message ((init True 1)\<lparr>message_queue := [''TICK|EURUSD|{}'']\<rparr>) ''TICK|USDJPY|{}'' =
     (init True 1)\<lparr>message_queue := [''TICK|EURUSD|{}''], receive_count := 1\<rparr> \<and>
   \<not> queue_full (init True 1) \<and>
   receive_message (init True 1) ''TICK|USDJPY|{}'' =
     (init True 1)\<lparr>message_queue := [''TICK|USDJPY|{}''], receive_count := 1\<rparr>"
  by (simp add: init_def queue_full_def enqueue_def receive_message_def)

subsection \<open>The upsert of gap buckets\<close>

lemma insert_or_replace_same:
  "filter (\<lambda>r'. tick_gap_key r' = tick_gap_key r) (insert_or_replace rows r) = [r]"
  by (simp add: insert_or_replace_def)

lemma insert_or_replace_other:
  "k \<noteq> tick_gap_key r \<Longrightarrow>
   filter (\<lambda>r'. tick_gap_key r' = k) (insert_or_replace rows r) =
   filter (\<lambda>r'. tick_gap_key r' = k) rows"
  by (auto simp: insert_or_replace_def intro: filter_cong)

lemma foldl_insert_or_replace_other:
  "k \<notin> tick_gap_key ` set rs \<Longrightarrow>
   filter (\<lambda>r'. tick_gap_key r' = k) (foldl insert_or_replace rows rs) =
   filter (\<lambda>r'. tick_gap_key r' = k) rows"
  by (induction rs arbitrary: rows) (auto simp: insert_or_replace_other)

lemma foldl_insert_or_replace_member:
  "distinct (map tick_gap_key rs) \<Longrightarrow> r \<in> set rs \<Longrightarrow>
   filter (\<lambda>r'. tick_gap_key r' = tick_gap_key r) (foldl insert_or_replace rows rs) = [r]"
proof (induction rs arbitrary: rows)
  case Nil
  then show ?case by simp
next
  case (Cons x rs)
  show ?case
  proof (cases "r \<in> set rs")
    case True
    then show ?thesis using Cons by simp
  next
    case False
    then have rx: "r = x" using Cons.prems by simp
    have "tick_gap_key x \<notin> tick_gap_key ` set rs" using Cons.prems by simp
    then show ?thesis
      by (simp add: rx foldl_insert_or_replace_other insert_or_replace_same)
  qed
qed

lemma gap_rows_keys: "map tick_gap_key (gap_rows m gc) = map (\<lambda>s. (m, s)) (map fst gc)"
  by (simp add: gap_rows_def tick_gap_key_def case_prod_unfold)

lemma distinct_gap_rows:
  "distinct (map fst gc) \<Longrightarrow> distinct (map tick_gap_key (gap_rows m gc))"
  unfolding gap_rows_keys by (simp add: distinct_map inj_on_def)

lemma write_gap_counts_row:
  assumes "\<not> is_closed db" and "distinct (map fst gc)" and "(symbol, c) \<in> set gc"
  shows "filter (\<lambda>r. tick_gap_key r = (m, symbol)) (tick_gaps (write_gap_counts db m gc)) =
           [\<lparr>tg_timestamp = m, tg_symbol = symbol, tg_minute = minute_str m,
             large_gap_count = large c, small_gap_count = small c\<rparr>]"
proof -
  let ?r = "\<lparr>tg_timestamp = m, tg_symbol = symbol, tg_minute = minute_str m,
             large_gap_count = large c, small_gap_count = small c\<rparr>"
  have "?r \<in> set (gap_rows m gc)"
    using assms(3) by (force simp: gap_rows_def)
  then have "filter (\<lambda>r'. tick_gap_key r' = tick_gap_key ?r)
      (foldl insert_or_replace (tick_gaps db) (gap_rows m gc)) = [?r]"
    using distinct_gap_rows [OF assms(2)] by (rule foldl_insert_or_replace_member [rotated])
  then show ?thesis using assms(1) by (simp add: write_gap_counts_def tick_gap_key_def)
qed

lemma write_gap_counts_other:
  assumes "k \<notin> set (map tick_gap_key (gap_rows m gc))"
  shows "filter (\<lambda>r. tick_gap_key r = k) (tick_gaps (write_gap_counts db m gc)) =
         filter (\<lambda>r. tick_gap_key r = k) (tick_gaps db)"
  using assms by (simp add: write_gap_counts_def foldl_insert_or_replace_other)

lemma write_gap_counts_open: "is_closed (write_gap_counts db m gc) = is_closed db"
  by (simp add: write_gap_counts_def)

text \<open>
  C9. With an open connection and an open minute \<open>m\<close>, a flush leaves exactly one row
  under the key \<open>(m, symbol)\<close> for every symbol of the window, whatever the table held
  before, rows of earlier flushes of the same minute included, and that row carries the
  counts just flushed. A second flush of the same minute with other counts therefore
  replaces the row: one row, the latest counts. Rows under keys that are not flushed
  stay as they were.
\<close>

theorem reflush_replaces_row:
  assumes "db_conn st = Some db" and "\<not> is_closed db" and "minute_start_time st = Some m"
    and "distinct (map fst (gap_counts st))" and "(symbol, c) \<in> set (gap_counts st)"
    and "distinct (map fst gc2)" and "(symbol, c2) \<in> set gc2"
  shows "map_option (\<lambda>d. filter (\<lambda>r. tick_gap_key r = (m, symbol)) (tick_gaps d))
           (db_conn (save_gap_counts st)) =
           Some [\<lparr>tg_timestamp = m, tg_symbol = symbol, tg_minute = minute_str m,
                  large_gap_count = large c, small_gap_count = small c\<rparr>] \<and>
         map_option (\<lambda>d. filter (\<lambda>r. tick_gap_key r = (m, symbol)) (tick_gaps d))
           (db_conn (save_gap_counts ((save_gap_counts st)\<lparr>gap_counts := gc2\<rparr>))) =
           Some [\<lparr>tg_timestamp = m, tg_symbol = symbol, tg_minute = minute_str m,
                  large_gap_count = large c2, small_gap_count = small c2\<rparr>] \<and>
         (k \<notin> set (map tick_gap_key (gap_rows m (gap_counts st))) \<longrightarrow>
            map_option (\<lambda>d. filter (\<lambda>r. tick_gap_key r = k) (tick_gaps d)) (db_conn (save_gap_counts st)) =
            Some (filter (\<lambda>r. tick_gap_key r = k) (tick_gaps db)))"
proof -
  have s1: "db_conn (save_gap_counts st) = Some (write_gap_counts db m (gap_counts st))"
    using assms(1,3) by (simp add: save_gap_counts_def)
  have s2: "db_conn (save_gap_counts ((save_gap_counts st)\<lparr>gap_counts := gc2\<rparr>)) =
      Some (write_gap_counts (write_gap_counts db m (gap_counts st)) m gc2)"
    using assms(1,3) by (simp add: save_gap_counts_def)
  have o: "\<not> is_closed (write_gap_counts db m (gap_counts st))"
    using assms(2) by (simp add: write_gap_counts_open)
  show ?thesis
    unfolding s1 s2
    using write_gap_counts_row [OF assms(2,4,5), of m]
      write_gap_counts_row [OF o assms(6,7), of m]
      write_gap_counts_other [of k m "gap_counts st" db]
    by simp
qed

theorem reflush_replaces_row_witness:
  "map_option tick_gaps (db_conn (save_gap_counts (save_gap_counts
     ((init True 10000)\<lparr>db_conn := Some \<lparr>is_closed = False, tick_gaps = [], sequence_gaps = []\<rparr>,
        minute_start_time := Some 43200,
        gap_counts := [(''EURUSD'', \<lparr>large = 1, small = 2\<rparr>)]\<rparr>)
     \<lparr>gap_counts := [(''EURUSD'', \<lparr>large = 4, small = 6\<rparr>)]\<rparr>))) =
   Some [\<lparr>tg_timestamp = 43200, tg_symbol = ''EURUSD'', tg_minute = ''1970-01-01 12:00:00'',
          large_gap_count = 4, small_gap_count = 6\<rparr>]"
proof -
  let ?db = "\<lparr>is_closed = False, tick_gaps = [], sequence_gaps = []\<rparr>"
  let ?st = "(init True 10000)\<lparr>db_conn := Some ?db, minute_start_time := Some 43200,
        gap_counts := [(''EURUSD'', \<lparr>large = 1, small = 2\<rparr>)]\<rparr>"
  have m: "minute_str 43200 = ''1970-01-01 12:00:00''"
    by code_simp
  have "map_option (\<lambda>d. filter (\<lambda>r. tick_gap_key r = (43200, ''EURUSD'')) (tick_gaps d))
           (db_conn (save_gap_counts ((save_gap_counts ?st)\<lparr>gap_counts := [(''EURUSD'', \<lparr>large = 4, small = 6\<rparr>)]\<rparr>))) =
           Some [\<lparr>tg_timestamp = 43200, tg_symbol = ''EURUSD'', tg_minute = minute_str 43200,
                  large_gap_count = 4, small_gap_count = 6\<rparr>]"
    using reflush_replaces_row [of ?st ?db 43200 "''EURUSD''" "\<lparr>large = 1, small = 2\<rparr>"
        "[(''EURUSD'', \<lparr>large = 4, small = 6\<rparr>)]" "\<lparr>large = 4, small = 6\<rparr>" "(0, [])"]
    by simp
  then show ?thesis
    by (simp add: m save_gap_counts_def write_gap_counts_def gap_rows_def insert_or_replace_def
        tick_gap_key_def)
qed

subsection \<open>Rounding to a double\<close>

lemma pow2_powi: "pow2 e = 2 powi e"
  by (simp add: pow2_def power_int_def inverse_eq_divide power_one_over)

lemma pow2_pos: "0 < pow2 e"
  by (simp add: pow2_powi)

lemma pow2_add: "pow2 (a + b) = pow2 a * pow2 b"
  by (simp add: pow2_powi power_int_add)

lemma pow2_less_iff: "pow2 a < pow2 b \<longleftrightarrow> a < b"
proof
  assume "pow2 a < pow2 b"
  show "a < b"
  proof (rule ccontr)
    assume "\<not> a < b"
    then have "pow2 b \<le> pow2 a"
      unfolding pow2_powi by (intro power_int_increasing) auto
    with \<open>pow2 a < pow2 b\<close> show False by simp
  qed
next
  assume "a < b"
  then show "pow2 a < pow2 b"
    unfolding pow2_powi by (intro power_int_strict_increasing) auto
qed

lemma ilog2_bounds:
  assumes "0 < x"
  shows "pow2 (ilog2 x) \<le> x \<and> x < pow2 (ilog2 x + 1)"
proof -
  obtain p q where pq: "quotient_of x = (p, q)" by (cases "quotient_of x")
  have q: "0 < q" using pq by (rule quotient_of_denom_pos)
  have x: "x = of_int p / of_int q" using pq by (rule quotient_of_div)
  have p: "0 < p" using assms q unfolding x by (simp add: zero_less_divide_iff)
  define bp where "bp = bitlen p"
  define bq where "bq = bitlen q"
  have bp1: "1 \<le> bp" and bq1: "1 \<le> bq"
    using p q by (simp_all add: bp_def bq_def bitlen_alt_def)
  have "2 ^ nat (bp - 1) \<le> p" "p < 2 ^ nat bp" "2 ^ nat (bq - 1) \<le> q" "q < 2 ^ nat bq"
    using bitlen_bounds [OF p] bitlen_bounds [OF q] by (simp_all add: bp_def bq_def)
  then have P: "(2::rat) ^ nat (bp - 1) \<le> of_int p" "of_int p < (2::rat) ^ nat bp"
    and Q: "(2::rat) ^ nat (bq - 1) \<le> of_int q" "of_int q < (2::rat) ^ nat bq"
    by (metis of_int_le_iff of_int_numeral of_int_power, metis of_int_less_iff of_int_numeral of_int_power,
        metis of_int_le_iff of_int_numeral of_int_power, metis of_int_less_iff of_int_numeral of_int_power)
  have e1: "(2::rat) ^ nat (bp - 1) = pow2 (bp - 1)" "(2::rat) ^ nat bp = pow2 bp"
    "(2::rat) ^ nat (bq - 1) = pow2 (bq - 1)" "(2::rat) ^ nat bq = pow2 bq"
    using bp1 bq1 by (simp_all add: pow2_def)
  have qpos: "(0::rat) < of_int q" using q by simp
  have up: "x < pow2 (bp - bq + 1)"
  proof -
    have "of_int p < pow2 bp" using P e1 by simp
    also have "\<dots> = pow2 (bp - bq + 1) * pow2 (bq - 1)"
      by (simp flip: pow2_add)
    also have "\<dots> \<le> pow2 (bp - bq + 1) * of_int q"
      using Q e1 pow2_pos [of "bp - bq + 1"] by (simp add: mult_left_mono)
    finally show ?thesis unfolding x using qpos by (simp add: pos_divide_less_eq)
  qed
  have lo: "pow2 (bp - bq - 1) < x"
  proof -
    have "pow2 (bp - bq - 1) * of_int q < pow2 (bp - bq - 1) * pow2 bq"
      using Q e1 pow2_pos [of "bp - bq - 1"] by (simp add: mult_strict_left_mono)
    also have "\<dots> = pow2 (bp - 1)" by (simp flip: pow2_add)
    also have "\<dots> \<le> of_int p" using P e1 by simp
    finally show ?thesis unfolding x using qpos by (simp add: pos_less_divide_eq)
  qed
  have i: "ilog2 x = (if pow2 (bp - bq) \<le> x then bp - bq else bp - bq - 1)"
    by (simp add: ilog2_def pq bp_def bq_def Let_def)
  show ?thesis
  proof (cases "pow2 (bp - bq) \<le> x")
    case True
    then show ?thesis using up i by simp
  next
    case False
    then show ?thesis using lo i by simp
  qed
qed

lemma ilog2_eq:
  assumes "pow2 e \<le> x" and "x < pow2 (e + 1)"
  shows "ilog2 x = e"
proof -
  have x: "0 < x" using assms(1) pow2_pos [of e] by simp
  have b: "pow2 (ilog2 x) \<le> x" "x < pow2 (ilog2 x + 1)"
    using ilog2_bounds [OF x] by simp_all
  have "pow2 e < pow2 (ilog2 x + 1)" using assms(1) b(2) by simp
  moreover have "pow2 (ilog2 x) < pow2 (e + 1)" using assms(2) b(1) by simp
  ultimately show ?thesis by (simp add: pow2_less_iff)
qed

lemma round_half_even_eq:
  assumes "of_int n - 1 / 2 < y" and "y < of_int n + 1 / 2"
  shows "round_half_even y = n"
proof -
  have f: "\<lfloor>y\<rfloor> = n \<or> \<lfloor>y\<rfloor> = n - 1"
    using assms by (simp add: floor_eq_iff) linarith
  then show ?thesis
  proof
    assume "\<lfloor>y\<rfloor> = n"
    then show ?thesis using assms by (simp add: round_half_even_def Let_def)
  next
    assume "\<lfloor>y\<rfloor> = n - 1"
    then show ?thesis using assms by (simp add: round_half_even_def Let_def)
  qed
qed

lemma round_double_eq:
  assumes "pow2 e \<le> x" and "x < pow2 (e + 1)" and "- 1022 \<le> e" and "e < 1023"
    and "(of_int n - 1 / 2) * pow2 (e - 52) < x" and "x < (of_int n + 1 / 2) * pow2 (e - 52)"
  shows "round_double x = Finite (of_int n * pow2 (e - 52))"
proof -
  have x: "0 < x" using assms(1) pow2_pos [of e] by simp
  have u: "0 < pow2 (e - 52)" by (rule pow2_pos)
  have i: "max (ilog2 x) (- 1022) = e"
    using ilog2_eq [OF assms(1,2)] assms(3) by simp
  have s53: "pow2 53 * pow2 (e - 52) = pow2 (e + 1)"
    using pow2_add [of 53 "e - 52"] by (simp add: algebra_simps)
  have r: "round_half_even (x / pow2 (e - 52)) = n"
    using assms(5,6) u by (intro round_half_even_eq) (simp_all add: pos_less_divide_eq pos_divide_less_eq)
  have "(of_int n - 1 / 2) * pow2 (e - 52) < pow2 (e + 1)"
    using assms(5,2) by simp
  also have "\<dots> = pow2 53 * pow2 (e - 52)" by (simp only: s53)
  finally have "of_int n - 1 / 2 < pow2 53" using u by simp
  then have "of_int n < (9007199254740992 + 1 / 2 :: rat)" by (simp add: pow2_def)
  then have "(of_int n :: rat) < of_int 9007199254740993" by simp
  then have "n < 9007199254740993" by (simp only: of_int_less_iff)
  then have "n \<le> 9007199254740992" by simp
  then have "(of_int n :: rat) \<le> pow2 53" by (simp add: pow2_def) 
  then have "of_int n * pow2 (e - 52) \<le> pow2 53 * pow2 (e - 52)"
    using u by simp
  also have "\<dots> = pow2 (e + 1)" by (simp only: s53)
  also have "\<dots> < pow2 1024" using assms(4) by (simp add: pow2_less_iff)
  finally have lt: "\<not> pow2 1024 \<le> of_int n * pow2 (e - 52)" by simp
  show ?thesis
    using x lt by (simp add: round_double_def Let_def i r)
qed

lemma round_double_cert:
  assumes "pow2 e \<le> x" and "x < pow2 (e + 1)" and "- 1022 \<le> e" and "e < 1023"
    and "(of_int n - 1 / 2) * pow2 (e - 52) < x" and "x < (of_int n + 1 / 2) * pow2 (e - 52)"
    and "r = of_int n * pow2 (e - 52)"
  shows "round_double x = Finite r"
  using round_double_eq [OF assms(1-6)] assms(7) by simp

lemma round_double_minus:
  "round_double x = Finite r \<Longrightarrow> round_double (- x) = Finite (- r)"
  by (auto simp: round_double_def Let_def split: if_splits)






subsection \<open>Buckets\<close>




lemma keys_add_large: "map fst (add_large gc s) = map fst gc"
  by (induction gc) (auto simp: add_large_def)

lemma keys_add_small: "map fst (add_small gc s) = map fst gc"
  by (induction gc) (auto simp: add_small_def)

lemma distinct_ensure_counts:
  "distinct (map fst gc) \<Longrightarrow> distinct (map fst (ensure_counts gc s))"
  by (auto simp: ensure_counts_def map_of_eq_None_iff)

lemma count_gap_keys:
  "count_gap st symbol b = Some st' \<Longrightarrow> map fst (gap_counts st') = map fst (gap_counts st)"
  by (auto simp: count_gap_def keys_add_large keys_add_small split: option.splits if_splits)

lemma roll_minute_keys:
  "distinct (map fst (gap_counts st)) \<Longrightarrow> distinct (map fst (gap_counts (roll_minute st m)))"
  by (simp add: roll_minute_def Let_def save_gap_counts_fields)

lemma aggregate_distinct:
  "distinct (map fst (gap_counts st)) \<Longrightarrow> distinct (map fst (gap_counts (aggregate st symbol b t)))"
  by (auto simp: aggregate_unfold Let_def roll_minute_keys distinct_ensure_counts
      split: option.splits dest!: count_gap_keys)

lemma process_tick_distinct:
  assumes "distinct (map fst (gap_counts st))"
  shows "distinct (map fst (gap_counts (process_tick st now symbol pl)))"
proof (cases pl)
  case Undecodable
  then show ?thesis using assms by (simp add: process_tick_undecodable)
next
  case (Decoded t)
  show ?thesis
    using assms unfolding Decoded
    by (simp add: process_tick_state Let_def aggregate_distinct check_sequence_aggregation
        split: fld.splits option.splits)
qed

lemma aggregate_classified:
  assumes "prev_bids st symbol = Some p" and "gap_pips symbol b p = Some g"
  shows "gap_counts (aggregate st symbol b t) =
           (if fl_ge_one g then add_large else add_small)
             (ensure_counts (gap_counts (roll_minute st (minute_of t))) symbol) symbol"
    and "prev_bids (aggregate st symbol b t) = (prev_bids st)(symbol \<mapsto> b)"
    and "minute_start_time (aggregate st symbol b t) = Some (minute_of t)"
    and "db_conn (aggregate st symbol b t) = db_conn (roll_minute st (minute_of t))"
  using assms by (simp_all add: aggregate_unfold Let_def count_gap_def roll_minute_fields)

lemma aggregate_first_bid:
  assumes "prev_bids st symbol = None"
  shows "gap_counts (aggregate st symbol b t) =
           ensure_counts (gap_counts (roll_minute st (minute_of t))) symbol"
    and "prev_bids (aggregate st symbol b t) = (prev_bids st)(symbol \<mapsto> b)"
    and "minute_start_time (aggregate st symbol b t) = Some (minute_of t)"
    and "db_conn (aggregate st symbol b t) = db_conn (roll_minute st (minute_of t))"
  using assms by (simp_all add: aggregate_unfold Let_def count_gap_def roll_minute_fields)

lemma aggregate_raises:
  assumes "prev_bids st symbol = Some p" and "gap_pips symbol b p = None"
  shows "gap_counts (aggregate st symbol b t) =
           ensure_counts (gap_counts (roll_minute st (minute_of t))) symbol"
    and "prev_bids (aggregate st symbol b t) = prev_bids st"
    and "minute_start_time (aggregate st symbol b t) = Some (minute_of t)"
    and "db_conn (aggregate st symbol b t) = db_conn (roll_minute st (minute_of t))"
  using assms by (simp_all add: aggregate_unfold Let_def count_gap_def roll_minute_fields)

lemma aggregate_gap_counts:
  "gap_counts (aggregate st symbol b t) =
     (let gc = ensure_counts (gap_counts (roll_minute st (minute_of t))) symbol
      in case prev_bids st symbol of
           None \<Rightarrow> gc
         | Some p \<Rightarrow>
             (case gap_pips symbol b p of
                None \<Rightarrow> gc
              | Some g \<Rightarrow> if fl_ge_one g then add_large gc symbol else add_small gc symbol))"
  by (simp add: aggregate_unfold Let_def count_gap_def roll_minute_fields split: option.splits)

subsection \<open>Pips\<close>

lemma pip_sizes:
  "round_double (1 / 100) = Finite (5764607523034235 / 576460752303423488)"
  "round_double (1 / 10000) = Finite (7378697629483821 / 73786976294838206464)"
  by (rule round_double_cert [where e = "- 7" and n = 5764607523034235], simp_all add: pow2_def)
    (rule round_double_cert [where e = "- 14" and n = 7378697629483821], simp_all add: pow2_def)

lemma endswith_examples:
  "\<not> endswith ''EURUSD'' ''JPY''" "endswith ''USDJPY'' ''JPY''"
  by (simp_all add: endswith_def)

lemma gap_pips_floats:
  "gap_pips symbol (JFloat x) (JFloat y) = fl_div (fl_abs (fl_sub x y)) (get_pip_size symbol)"
  by (simp add: gap_pips_def py_abs_sub_def py_truediv_def)

lemma example_eurusd_large:
  "gap_pips ''EURUSD'' (JFloat (round_double (110011 / 100000))) (JFloat (round_double (11 / 10))) =
     Some (Finite (154811237190625 / 140737488355328))"
proof -
  have x: "round_double (110011 / 100000) = Finite (1238613746516639 / 1125899906842624)"
    by (rule round_double_cert [where e = "0" and n = 4954454986066556]) (simp_all add: pow2_def)
  have y: "round_double (11 / 10) = Finite (2476979795053773 / 2251799813685248)"
    by (rule round_double_cert [where e = "0" and n = 4953959590107546]) (simp_all add: pow2_def)
  have d: "fl_sub (Finite (1238613746516639 / 1125899906842624)) (Finite (2476979795053773 / 2251799813685248)) = Finite (247697979505 / 2251799813685248)"
    unfolding fl_sub.simps
    by (rule round_double_cert [where e = "- 14" and n = 8116567392419840]) (simp_all add: pow2_def)
  have a: "fl_abs (Finite (247697979505 / 2251799813685248)) = Finite (247697979505 / 2251799813685248)"
    by simp
  have "round_double ((247697979505 / 2251799813685248) / (7378697629483821 / 73786976294838206464)) = Finite (154811237190625 / 140737488355328)"
    by (rule round_double_cert [where e = "0" and n = 4953959590100000]) (simp_all add: pow2_def)
  then have q: "fl_div (Finite (247697979505 / 2251799813685248)) (Finite (7378697629483821 / 73786976294838206464)) = Some (Finite (154811237190625 / 140737488355328))"
    by simp
  have p: "get_pip_size ''EURUSD'' = Finite (7378697629483821 / 73786976294838206464)"
    by (simp add: get_pip_size_def endswith_examples pip_sizes)
  show ?thesis
    by (simp only: x y gap_pips_floats d a p q)
qed











subsection \<open>Minute windows\<close>

lemma roll_minute_new:
  "minute_start_time st = Some m \<Longrightarrow> m \<noteq> cm \<Longrightarrow>
   roll_minute st cm = (save_gap_counts st)\<lparr>gap_counts := [], minute_start_time := Some cm\<rparr>"
  by (simp add: roll_minute_def Let_def)

lemma roll_minute_same:
  "minute_start_time st = Some cm \<Longrightarrow> roll_minute st cm = st"
  by (simp add: roll_minute_def Let_def)

lemma roll_minute_first:
  "minute_start_time st = None \<Longrightarrow> roll_minute st cm = st\<lparr>minute_start_time := Some cm\<rparr>"
  by (simp add: roll_minute_def Let_def)

lemma aggregate_rolled:
  "aggregate (roll_minute st (minute_of t)) symbol b t = aggregate st symbol b t"
  by (simp add: aggregate_unfold roll_minute_same roll_minute_fields)

lemma aggregate_db_conn:
  "db_conn (aggregate st symbol b t) = db_conn (roll_minute st (minute_of t))"
  by (auto simp: aggregate_unfold Let_def split: option.splits dest!: count_gap_fields)

lemma aggregate_minute:
  "minute_start_time (aggregate st symbol b t) = Some (minute_of t)"
  by (auto simp: aggregate_unfold Let_def roll_minute_fields split: option.splits dest!: count_gap_fields)

text \<open>
  C1. A tick with a bid and a time that reaches the aggregation (its sequence check, if
  any, has returned, leaving the state \<open>st1\<close>) and whose minute differs from the open
  minute \<open>m\<close> is processed in this order: the buckets of the open window are saved
  under \<open>m\<close>, the bucket set is emptied and the window moved to the new minute, and
  the tick is then aggregated in that fresh window. So the connection afterwards is the
  one left by the save of the old buckets; with an open connection each old symbol has
  exactly one row under \<open>m\<close> with the counts it had before this tick; and the new
  window holds one bucket, that of the tick's symbol, with at most the tick's own
  classification.
\<close>

theorem minute_change_flushes_first:
  assumes "bid t = Some b" and "time t = Val ts" and "sequence_step st now symbol t = Done st1"
    and "minute_start_time st = Some m" and "minute_of ts \<noteq> m"
  shows "process_tick st now symbol (Decoded t) =
           aggregate ((save_gap_counts st1)
             \<lparr>gap_counts := [], minute_start_time := Some (minute_of ts)\<rparr>) symbol b ts \<and>
         db_conn (process_tick st now symbol (Decoded t)) = db_conn (save_gap_counts st1) \<and>
         (db_conn st = Some db \<and> \<not> is_closed db \<and> distinct (map fst (gap_counts st)) \<and>
          (s, c) \<in> set (gap_counts st) \<longrightarrow>
            map_option (\<lambda>d. filter (\<lambda>r. tick_gap_key r = (m, s)) (tick_gaps d))
              (db_conn (process_tick st now symbol (Decoded t))) =
            Some [\<lparr>tg_timestamp = m, tg_symbol = s, tg_minute = minute_str m,
                   large_gap_count = large c, small_gap_count = small c\<rparr>]) \<and>
         minute_start_time (process_tick st now symbol (Decoded t)) = Some (minute_of ts) \<and>
         gap_counts (process_tick st now symbol (Decoded t)) =
           [(symbol, case prev_bids st symbol of
                       None \<Rightarrow> \<lparr>large = 0, small = 0\<rparr>
                     | Some p \<Rightarrow>
                         (case gap_pips symbol b p of
                            None \<Rightarrow> \<lparr>large = 0, small = 0\<rparr>
                          | Some g \<Rightarrow> if fl_ge_one g then \<lparr>large = 1, small = 0\<rparr>
                                      else \<lparr>large = 0, small = 1\<rparr>))]"
proof -
  let ?r = "(save_gap_counts st1)\<lparr>gap_counts := [], minute_start_time := Some (minute_of ts)\<rparr>"
  note s1 = sequence_step_returned(2-6) [OF assms(3)]
  have m1: "minute_start_time st1 = Some m"
    using assms(4) by (simp add: s1)
  have roll: "roll_minute st1 (minute_of ts) = ?r"
    using m1 assms(5) by (simp add: roll_minute_new)
  have pt: "process_tick st now symbol (Decoded t) = aggregate st1 symbol b ts"
    by (rule process_tick_timed [OF assms(3,1,2)])
  have a: "process_tick st now symbol (Decoded t) = aggregate ?r symbol b ts"
    unfolding pt using aggregate_rolled [of st1 ts symbol b] by (simp only: roll)
  have d: "db_conn (process_tick st now symbol (Decoded t)) = db_conn (save_gap_counts st1)"
    unfolding pt by (simp add: aggregate_db_conn roll)
  have rows: "map_option (\<lambda>d. filter (\<lambda>r. tick_gap_key r = (m, s)) (tick_gaps d))
              (db_conn (process_tick st now symbol (Decoded t))) =
            Some [\<lparr>tg_timestamp = m, tg_symbol = s, tg_minute = minute_str m,
                   large_gap_count = large c, small_gap_count = small c\<rparr>]"
    if h: "db_conn st = Some db" "\<not> is_closed db" "distinct (map fst (gap_counts st))"
      "(s, c) \<in> set (gap_counts st)"
  proof -
    obtain db1 where db1: "db_conn st1 = Some db1" and o: "\<not> is_closed db1"
      using s1(5) h(1,2) by (cases "db_conn st1") auto
    have g: "gap_counts st1 = gap_counts st" by (rule s1(3))
    have "db_conn (save_gap_counts st1) = Some (write_gap_counts db1 m (gap_counts st))"
      using db1 m1 g by (simp add: save_gap_counts_def)
    then show ?thesis
      unfolding d using write_gap_counts_row [OF o h(3,4), of m] by simp
  qed
  have mi: "minute_start_time (process_tick st now symbol (Decoded t)) = Some (minute_of ts)"
    unfolding pt by (rule aggregate_minute)
  have p1: "prev_bids st1 symbol = prev_bids st symbol"
    by (simp add: s1)
  have gc: "gap_counts (process_tick st now symbol (Decoded t)) =
           [(symbol, case prev_bids st symbol of
                       None \<Rightarrow> \<lparr>large = 0, small = 0\<rparr>
                     | Some p \<Rightarrow>
                         (case gap_pips symbol b p of
                            None \<Rightarrow> \<lparr>large = 0, small = 0\<rparr>
                          | Some g \<Rightarrow> if fl_ge_one g then \<lparr>large = 1, small = 0\<rparr>
                                      else \<lparr>large = 0, small = 1\<rparr>))]"
    unfolding pt aggregate_gap_counts roll p1
    by (simp add: ensure_counts_def add_large_def add_small_def split: option.splits)
  show ?thesis using a d rows mi gc by blast
qed

lemma example_eurusd_back:
  "gap_pips ''EURUSD'' (JFloat (round_double (22001 / 20000))) (JFloat (round_double (110011 / 100000))) =
     Some (Finite (84442493013125 / 140737488355328))"
proof -
  have x: "round_double (22001 / 20000) = Finite (2477092385044457 / 2251799813685248)"
    by (rule round_double_cert [where e = "0" and n = 4954184770088914]) (simp_all add: pow2_def)
  have y: "round_double (110011 / 100000) = Finite (1238613746516639 / 1125899906842624)"
    by (rule round_double_cert [where e = "0" and n = 4954454986066556]) (simp_all add: pow2_def)
  have "round_double (1238613746516639 / 1125899906842624 - 2477092385044457 / 2251799813685248) = Finite (135107988821 / 2251799813685248)"
    by (rule round_double_cert [where e = "- 15" and n = 8854437155373056]) (simp_all add: pow2_def)
  from round_double_minus [OF this]
  have d: "fl_sub (Finite (2477092385044457 / 2251799813685248)) (Finite (1238613746516639 / 1125899906842624)) = Finite (- (135107988821 / 2251799813685248))"
    by simp
  have a: "fl_abs (Finite (- (135107988821 / 2251799813685248))) = Finite (135107988821 / 2251799813685248)"
    by simp
  have "round_double ((135107988821 / 2251799813685248) / (7378697629483821 / 73786976294838206464)) = Finite (84442493013125 / 140737488355328)"
    by (rule round_double_cert [where e = "- 1" and n = 5404319552840000]) (simp_all add: pow2_def)
  then have q: "fl_div (Finite (135107988821 / 2251799813685248)) (Finite (7378697629483821 / 73786976294838206464)) = Some (Finite (84442493013125 / 140737488355328))"
    by simp
  have p: "get_pip_size ''EURUSD'' = Finite (7378697629483821 / 73786976294838206464)"
    by (simp add: get_pip_size_def endswith_def pip_sizes)
  show ?thesis
    by (simp only: x y gap_pips_floats d a p q)
qed

lemma init_fields:
  "gap_counts (init c q) = []" "prev_bids (init c q) = Map.empty"
  "minute_start_time (init c q) = None" "db_conn (init c q) = None"
  "seq_nums (init c q) = Map.empty" "missed_messages (init c q) = 0" "gap_log (init c q) = []"
  by (simp_all add: init_def)

theorem minute_change_flushes_first_witness:
  "minute_start_time (process_all
     ((init True 10000)\<lparr>db_conn := Some \<lparr>is_closed = False, tick_gaps = [], sequence_gaps = []\<rparr>\<rparr>)
     [(100, ''EURUSD'', Decoded \<lparr>seq_num = Absent, bid = Some (JFloat (round_double (11 / 10))), time = Val 43230\<rparr>),
      (100, ''EURUSD'', Decoded \<lparr>seq_num = Absent, bid = Some (JFloat (round_double (110011 / 100000))), time = Val 43259\<rparr>)]) =
     Some 43200 \<and>
   minute_of 43260 \<noteq> 43200 \<and>
   map_option tick_gaps (db_conn (process_all
     ((init True 10000)\<lparr>db_conn := Some \<lparr>is_closed = False, tick_gaps = [], sequence_gaps = []\<rparr>\<rparr>)
     [(100, ''EURUSD'', Decoded \<lparr>seq_num = Absent, bid = Some (JFloat (round_double (11 / 10))), time = Val 43230\<rparr>),
      (100, ''EURUSD'', Decoded \<lparr>seq_num = Absent, bid = Some (JFloat (round_double (110011 / 100000))), time = Val 43259\<rparr>),
      (101, ''EURUSD'', Decoded \<lparr>seq_num = Absent, bid = Some (JFloat (round_double (22001 / 20000))), time = Val 43260\<rparr>)])) =
     Some [\<lparr>tg_timestamp = 43200, tg_symbol = ''EURUSD'', tg_minute = ''1970-01-01 12:00:00'',
            large_gap_count = 1, small_gap_count = 0\<rparr>] \<and>
   gap_counts (process_all
     ((init True 10000)\<lparr>db_conn := Some \<lparr>is_closed = False, tick_gaps = [], sequence_gaps = []\<rparr>\<rparr>)
     [(100, ''EURUSD'', Decoded \<lparr>seq_num = Absent, bid = Some (JFloat (round_double (11 / 10))), time = Val 43230\<rparr>),
      (100, ''EURUSD'', Decoded \<lparr>seq_num = Absent, bid = Some (JFloat (round_double (110011 / 100000))), time = Val 43259\<rparr>),
      (101, ''EURUSD'', Decoded \<lparr>seq_num = Absent, bid = Some (JFloat (round_double (22001 / 20000))), time = Val 43260\<rparr>)]) =
     [(''EURUSD'', \<lparr>large = 0, small = 1\<rparr>)]"
proof -
  let ?db = "\<lparr>is_closed = False, tick_gaps = [], sequence_gaps = []\<rparr>"
  let ?s0 = "(init True 10000)\<lparr>db_conn := Some ?db\<rparr>"
  let ?t1 = "\<lparr>seq_num = Absent, bid = Some (JFloat (round_double (11 / 10))), time = Val 43230\<rparr>"
  let ?t2 = "\<lparr>seq_num = Absent, bid = Some (JFloat (round_double (110011 / 100000))), time = Val 43259\<rparr>"
  let ?t3 = "\<lparr>seq_num = Absent, bid = Some (JFloat (round_double (22001 / 20000))), time = Val 43260\<rparr>"
  let ?s1 = "process_tick ?s0 100 ''EURUSD'' (Decoded ?t1)"
  let ?s2 = "process_tick ?s1 100 ''EURUSD'' (Decoded ?t2)"
  have e1: "?s1 = aggregate ?s0 ''EURUSD'' (JFloat (round_double (11 / 10))) 43230"
    by (rule process_tick_timed) (simp_all add: sequence_step_def)
  have m1: "minute_of 43230 = 43200" "minute_of 43259 = 43200"
    by (simp_all add: minute_of_def)
  have p0: "prev_bids ?s0 ''EURUSD'' = None" "minute_start_time ?s0 = None"
    "gap_counts ?s0 = []" "db_conn ?s0 = Some ?db"
    by (simp_all add: init_def)
  have a1: "gap_counts ?s1 = ensure_counts (gap_counts (roll_minute ?s0 (minute_of 43230))) ''EURUSD''"
    "prev_bids ?s1 = (prev_bids ?s0)(''EURUSD'' \<mapsto> JFloat (round_double (11 / 10)))"
    "minute_start_time ?s1 = Some (minute_of 43230)"
    "db_conn ?s1 = db_conn (roll_minute ?s0 (minute_of 43230))"
    unfolding e1 by (rule aggregate_first_bid [OF p0(1)])+
  have s1: "prev_bids ?s1 ''EURUSD'' = Some (JFloat (round_double (11 / 10)))"
    "gap_counts ?s1 = [(''EURUSD'', \<lparr>large = 0, small = 0\<rparr>)]"
    "minute_start_time ?s1 = Some 43200" "db_conn ?s1 = Some ?db"
    unfolding a1
    by (simp_all add: roll_minute_first [OF p0(2)] m1 init_fields ensure_counts_def)
  have e2: "?s2 = aggregate ?s1 ''EURUSD'' (JFloat (round_double (110011 / 100000))) 43259"
    by (rule process_tick_timed) (simp_all add: sequence_step_def)
  have r2: "roll_minute ?s1 (minute_of 43259) = ?s1"
    using s1(3) by (simp add: roll_minute_same m1)
  have a2: "gap_counts ?s2 =
        (if fl_ge_one (Finite (154811237190625 / 140737488355328)) then add_large else add_small)
          (ensure_counts (gap_counts (roll_minute ?s1 (minute_of 43259))) ''EURUSD'') ''EURUSD''"
    "prev_bids ?s2 = (prev_bids ?s1)(''EURUSD'' \<mapsto> JFloat (round_double (110011 / 100000)))"
    "minute_start_time ?s2 = Some (minute_of 43259)"
    "db_conn ?s2 = db_conn (roll_minute ?s1 (minute_of 43259))"
    unfolding e2 by (rule aggregate_classified [OF s1(1) example_eurusd_large])+
  have s2: "prev_bids ?s2 ''EURUSD'' = Some (JFloat (round_double (110011 / 100000)))"
    "gap_counts ?s2 = [(''EURUSD'', \<lparr>large = 1, small = 0\<rparr>)]"
    "minute_start_time ?s2 = Some 43200" "db_conn ?s2 = Some ?db"
    unfolding a2 r2
    by (simp_all add: s1 m1 ensure_counts_def add_large_def)
  have h: "bid ?t3 = Some (JFloat (round_double (22001 / 20000)))" "time ?t3 = Val 43260"
    "sequence_step ?s2 101 ''EURUSD'' ?t3 = Done ?s2"
    by (simp_all add: sequence_step_def)
  have m: "minute_of 43260 \<noteq> 43200" by (simp add: minute_of_def)
  have l: "minute_str 43200 = ''1970-01-01 12:00:00''"
    by code_simp
  note T = minute_change_flushes_first [OF h s2(3) m, of ?db "''EURUSD''"
      "\<lparr>large = 1, small = 0\<rparr>"]
  have d: "db_conn (process_tick ?s2 101 ''EURUSD'' (Decoded ?t3)) = db_conn (save_gap_counts ?s2)"
    using T [THEN conjunct2, THEN conjunct1] by simp
  have g: "gap_counts (process_tick ?s2 101 ''EURUSD'' (Decoded ?t3)) = [(''EURUSD'', \<lparr>large = 0, small = 1\<rparr>)]"
    using T [THEN conjunct2, THEN conjunct2, THEN conjunct2, THEN conjunct2]
    unfolding s2(1) by (simp add: example_eurusd_back)
  have r: "map_option tick_gaps (db_conn (save_gap_counts ?s2)) =
     Some [\<lparr>tg_timestamp = 43200, tg_symbol = ''EURUSD'', tg_minute = ''1970-01-01 12:00:00'',
            large_gap_count = 1, small_gap_count = 0\<rparr>]"
    using s2 by (simp add: save_gap_counts_def write_gap_counts_def gap_rows_def
        insert_or_replace_def l)
  show ?thesis using s2(3) m d g r by simp
qed

subsection \<open>Previous bids\<close>

lemma aggregate_prev_bids:
  "prev_bids (aggregate st symbol b t) = prev_bids st \<or>
   prev_bids (aggregate st symbol b t) = (prev_bids st)(symbol \<mapsto> b)"
  by (auto simp: aggregate_unfold Let_def roll_minute_fields split: option.splits dest!: count_gap_fields)

lemma sub_save_gap_counts_fields:
  "previous_bids (sub_save_gap_counts st) = previous_bids st"
  "sub_gap_counts (sub_save_gap_counts st) = sub_gap_counts st"
  "sub_minute_start_time (sub_save_gap_counts st) = sub_minute_start_time st"
  by (simp_all add: sub_save_gap_counts_def split: option.splits)

lemma sub_roll_minute_fields:
  "previous_bids (sub_roll_minute st cm) = previous_bids st"
  "sub_minute_start_time (sub_roll_minute st cm) = Some cm"
  by (simp_all add: sub_roll_minute_def Let_def sub_save_gap_counts_fields)

lemma sub_roll_minute_new:
  "sub_minute_start_time st = Some m \<Longrightarrow> m \<noteq> cm \<Longrightarrow>
   sub_roll_minute st cm = (sub_save_gap_counts st)\<lparr>sub_gap_counts := [], sub_minute_start_time := Some cm\<rparr>"
  by (simp add: sub_roll_minute_def Let_def)

lemma sub_process_tick_classified:
  assumes "bid t = Some b" and "time t = Val ts"
    and "previous_bids st symbol = Some p" and "gap_pips symbol b p = Some g"
  shows "sub_gap_counts (sub_process_tick st symbol (Decoded t)) =
           (if fl_ge_one g then add_large else add_small)
             (ensure_counts (sub_gap_counts (sub_roll_minute st (minute_of ts))) symbol) symbol"
    and "previous_bids (sub_process_tick st symbol (Decoded t)) = (previous_bids st)(symbol \<mapsto> b)"
  using assms
  by (simp_all add: sub_process_tick_unfold Let_def sub_count_gap_def sub_roll_minute_fields)

lemma sub_process_tick_untimed:
  assumes "bid t = Some b" and "time t = Absent"
  shows "sub_process_tick st symbol (Decoded t) =
           st\<lparr>tick_data := (tick_data st)(symbol \<mapsto> t),
              previous_bids := (previous_bids st)(symbol \<mapsto> b)\<rparr>"
  using assms by (simp add: sub_process_tick_unfold)

lemma example_eurusd_forth:
  "gap_pips ''EURUSD'' (JFloat (round_double (110011 / 100000))) (JFloat (round_double (22001 / 20000))) =
     Some (Finite (84442493013125 / 140737488355328))"
proof -
  have x: "round_double (110011 / 100000) = Finite (1238613746516639 / 1125899906842624)"
    by (rule round_double_cert [where e = "0" and n = 4954454986066556]) (simp_all add: pow2_def)
  have y: "round_double (22001 / 20000) = Finite (2477092385044457 / 2251799813685248)"
    by (rule round_double_cert [where e = "0" and n = 4954184770088914]) (simp_all add: pow2_def)
  have d: "fl_sub (Finite (1238613746516639 / 1125899906842624)) (Finite (2477092385044457 / 2251799813685248)) = Finite (135107988821 / 2251799813685248)"
    unfolding fl_sub.simps
    by (rule round_double_cert [where e = "- 15" and n = 8854437155373056]) (simp_all add: pow2_def)
  have a: "fl_abs (Finite (135107988821 / 2251799813685248)) = Finite (135107988821 / 2251799813685248)"
    by simp
  have "round_double ((135107988821 / 2251799813685248) / (7378697629483821 / 73786976294838206464)) = Finite (84442493013125 / 140737488355328)"
    by (rule round_double_cert [where e = "- 1" and n = 5404319552840000]) (simp_all add: pow2_def)
  then have q: "fl_div (Finite (135107988821 / 2251799813685248)) (Finite (7378697629483821 / 73786976294838206464)) = Some (Finite (84442493013125 / 140737488355328))"
    by simp
  have p: "get_pip_size ''EURUSD'' = Finite (7378697629483821 / 73786976294838206464)"
    by (simp add: get_pip_size_def endswith_def pip_sizes)
  show ?thesis
    by (simp only: x y gap_pips_floats d a p q)
qed

lemma outcome_done: "is_done x \<Longrightarrow> x = Done (state_of x)"
  by (cases x) simp_all

lemma try_aggregate_prev_bids:
  "try_aggregate st symbol b t = Done st' \<Longrightarrow> prev_bids st' = (prev_bids st)(symbol \<mapsto> b)"
  "try_aggregate st symbol b t = Raised e st' \<Longrightarrow> prev_bids st' = prev_bids st"
  by (auto simp: try_aggregate_def Let_def roll_minute_fields split: option.splits
      dest!: count_gap_fields)

lemma try_aggregate_is_done:
  "is_done (try_aggregate st symbol b t) \<longleftrightarrow>
     (case prev_bids st symbol of None \<Rightarrow> True | Some p \<Rightarrow> gap_pips symbol b p \<noteq> None)"
  by (simp add: try_aggregate_def Let_def count_gap_def roll_minute_fields split: option.splits)

lemma sequence_step_raised:
  assumes "sequence_step st now symbol t = Raised e st1"
  shows "prev_bids st1 = prev_bids st"
    and "minute_start_time st1 = minute_start_time st"
    and "gap_counts st1 = gap_counts st"
proof -
  have e: "st1 = (case seq_num t of Val sn \<Rightarrow> check_sequence st now symbol sn | _ \<Rightarrow> st)"
    using sequence_step_state [of st now symbol t] assms by simp
  show "prev_bids st1 = prev_bids st" "minute_start_time st1 = minute_start_time st"
    "gap_counts st1 = gap_counts st"
    unfolding e by (rule seq_checked_aggregation)+
qed

lemma try_process_tick_prev_bids:
  "try_process_tick st now symbol pl = Done st' \<Longrightarrow>
   prev_bids st' =
     (case pl of
        Undecodable \<Rightarrow> prev_bids st
      | Decoded t \<Rightarrow> (case bid t of None \<Rightarrow> prev_bids st | Some b \<Rightarrow> (prev_bids st)(symbol \<mapsto> b)))"
  "try_process_tick st now symbol pl = Raised e st' \<Longrightarrow> prev_bids st' = prev_bids st"
  by (auto simp: try_process_tick_def sequence_step_returned(2) sequence_step_raised(1)
      try_aggregate_prev_bids split: payload.splits outcome.splits option.splits fld.splits)

lemma try_process_tick_is_done:
  "is_done (try_process_tick st now symbol (Decoded t)) \<longleftrightarrow>
     is_done (sequence_step st now symbol t) \<and>
     (case bid t of
        None \<Rightarrow> True
      | Some b \<Rightarrow>
          (case time t of
             Absent \<Rightarrow> True
           | Raises \<Rightarrow> False
           | Val ts \<Rightarrow> (case prev_bids st symbol of None \<Rightarrow> True | Some p \<Rightarrow> gap_pips symbol b p \<noteq> None)))"
  by (auto simp: try_process_tick_def try_aggregate_is_done sequence_step_returned(2)
      split: outcome.splits option.splits fld.splits)

lemma process_tick_prev_bids:
  "prev_bids (process_tick st now symbol pl) = prev_bids st \<or>
   (\<exists>b. prev_bids (process_tick st now symbol pl) = (prev_bids st)(symbol \<mapsto> b))"
proof (cases "try_process_tick st now symbol pl")
  case (Done st')
  then show ?thesis
    using try_process_tick_prev_bids(1) [OF Done]
    by (auto simp: process_tick_def split: payload.splits option.splits)
next
  case (Raised e st')
  then show ?thesis
    using try_process_tick_prev_bids(2) [OF Raised] by (simp add: process_tick_def)
qed

lemma try_sub_process_tick_prev_bids:
  "try_sub_process_tick ss symbol pl = Done ss' \<Longrightarrow>
   previous_bids ss' =
     (case pl of
        Undecodable \<Rightarrow> previous_bids ss
      | Decoded t \<Rightarrow> (case bid t of None \<Rightarrow> previous_bids ss | Some b \<Rightarrow> (previous_bids ss)(symbol \<mapsto> b)))"
  "try_sub_process_tick ss symbol pl = Raised e ss' \<Longrightarrow> previous_bids ss' = previous_bids ss"
  by (auto simp: try_sub_process_tick_def Let_def sub_count_gap_def sub_roll_minute_fields
      split: payload.splits option.splits fld.splits if_splits)

lemma try_sub_process_tick_is_done:
  "is_done (try_sub_process_tick ss symbol (Decoded t)) \<longleftrightarrow>
     (case bid t of
        None \<Rightarrow> True
      | Some b \<Rightarrow>
          (case time t of
             Absent \<Rightarrow> True
           | Raises \<Rightarrow> False
           | Val ts \<Rightarrow> (case previous_bids ss symbol of None \<Rightarrow> True | Some p \<Rightarrow> gap_pips symbol b p \<noteq> None)))"
  by (auto simp: try_sub_process_tick_def Let_def sub_count_gap_def sub_roll_minute_fields
      split: option.splits fld.splits)

lemma sub_process_tick_prev_bids:
  "previous_bids (sub_process_tick ss symbol pl) = previous_bids ss \<or>
   (\<exists>b. previous_bids (sub_process_tick ss symbol pl) = (previous_bids ss)(symbol \<mapsto> b))"
proof (cases "try_sub_process_tick ss symbol pl")
  case (Done ss')
  then show ?thesis
    using try_sub_process_tick_prev_bids(1) [OF Done]
    by (auto simp: sub_process_tick_def split: payload.splits option.splits)
next
  case (Raised e ss')
  then show ?thesis
    using try_sub_process_tick_prev_bids(2) [OF Raised] by (simp add: sub_process_tick_def)
qed

lemma classified_gap_counts:
  assumes "sequence_step st now symbol t = Done st1" and "bid t = Some b" and "time t = Val ts"
    and "prev_bids st symbol = Some p" and "gap_pips symbol b p = Some g"
  shows "gap_counts (process_tick st now symbol (Decoded t)) =
           (if fl_ge_one g then add_large else add_small)
             (ensure_counts (gap_counts (roll_minute st (minute_of ts))) symbol) symbol"
proof -
  have r: "gap_counts (roll_minute st1 (minute_of ts)) = gap_counts (roll_minute st (minute_of ts))"
    by (simp add: roll_minute_def Let_def save_gap_counts_fields sequence_step_returned(2-4) [OF assms(1)])
  have p: "prev_bids st1 symbol = Some p"
    using assms(4) by (simp add: sequence_step_returned(2) [OF assms(1)])
  show ?thesis
    using aggregate_classified(1) [OF p assms(5), of ts]
    by (simp only: process_tick_timed [OF assms(1,2,3)] r)
qed

lemma new_window_gap_counts:
  assumes "sequence_step st now symbol t = Done st1" and "bid t = Some b" and "time t = Val ts"
    and "minute_start_time st = Some m" and "minute_of ts \<noteq> m"
    and "prev_bids st symbol = Some p" and "gap_pips symbol b p = Some g"
  shows "gap_counts (process_tick st now symbol (Decoded t)) =
           [(symbol, if fl_ge_one g then \<lparr>large = 1, small = 0\<rparr> else \<lparr>large = 0, small = 1\<rparr>)]"
  unfolding classified_gap_counts [OF assms(1,2,3,6,7)]
  using assms(4,5)
  by (simp add: roll_minute_new save_gap_counts_fields ensure_counts_def add_large_def add_small_def)

lemma untimed_tick:
  assumes "sequence_step st now symbol u = Done su" and "bid u = Some bu" and "time u = Absent"
  shows "prev_bids (process_tick st now symbol (Decoded u)) = (prev_bids st)(symbol \<mapsto> bu)"
    and "gap_counts (process_tick st now symbol (Decoded u)) = gap_counts st"
    and "minute_start_time (process_tick st now symbol (Decoded u)) = minute_start_time st"
  unfolding process_tick_untimed [OF assms]
  by (simp_all add: sequence_step_returned(3,4) [OF assms(1)])

text \<open>
  C10. In both receivers no step removes a previous bid: saving and resetting the
  window leave the map alone, and the processing of a tick either keeps the map or
  stores the bid of the tick under its symbol. It stores the bid exactly when the tick
  has one and its processing returns, whether the tick has no time, falls in the open
  minute or opens a new one, and whether or not the symbol had a bid before; when the
  processing raises (the sequence number or the time does not convert, the sequence check
  or the gap computation raises) the map is unchanged. So the first tick of a new
  window, for a symbol with a previous bid \<open>p\<close> from the old window, is classified
  against \<open>p\<close>: the new window starts with that one count. A tick with a bid and no time
  stores its bid and touches neither window nor buckets; the next timed tick of the
  symbol is then classified against that bid.
\<close>

theorem previous_bid_never_cleared:
  "prev_bids (save_gap_counts st) = prev_bids st \<and>
   prev_bids (roll_minute st cm) = prev_bids st \<and>
   dom (prev_bids st) \<subseteq> dom (prev_bids (process_tick st now symbol pl)) \<and>
   (try_process_tick st now symbol (Decoded t) = Done st' \<and> bid t = Some b \<longrightarrow>
      process_tick st now symbol (Decoded t) = st' \<and>
      prev_bids st' = (prev_bids st)(symbol \<mapsto> b)) \<and>
   (try_process_tick st now symbol pr = Raised e sr \<longrightarrow>
      process_tick st now symbol pr = sr \<and> prev_bids sr = prev_bids st) \<and>
   (is_done (try_process_tick st now symbol (Decoded t)) \<longleftrightarrow>
      is_done (sequence_step st now symbol t) \<and>
      (case bid t of
         None \<Rightarrow> True
       | Some b \<Rightarrow>
           (case time t of
              Absent \<Rightarrow> True
            | Raises \<Rightarrow> False
            | Val ts \<Rightarrow>
                (case prev_bids st symbol of None \<Rightarrow> True | Some p \<Rightarrow> gap_pips symbol b p \<noteq> None)))) \<and>
   (sequence_step st now symbol t = Done sd \<and> bid t = Some b \<and> time t = Val ts \<and>
    minute_start_time st = Some m \<and> minute_of ts \<noteq> m \<and>
    prev_bids st symbol = Some p \<and> gap_pips symbol b p = Some g \<longrightarrow>
      gap_counts (process_tick st now symbol (Decoded t)) =
        [(symbol, if fl_ge_one g then \<lparr>large = 1, small = 0\<rparr> else \<lparr>large = 0, small = 1\<rparr>)] \<and>
      prev_bids (process_tick st now symbol (Decoded t)) = (prev_bids st)(symbol \<mapsto> b)) \<and>
   (sequence_step st now symbol u = Done su \<and> bid u = Some bu \<and> time u = Absent \<longrightarrow>
      prev_bids (process_tick st now symbol (Decoded u)) = (prev_bids st)(symbol \<mapsto> bu) \<and>
      gap_counts (process_tick st now symbol (Decoded u)) = gap_counts st \<and>
      minute_start_time (process_tick st now symbol (Decoded u)) = minute_start_time st) \<and>
   (sequence_step st now symbol u = Done su \<and> bid u = Some bu \<and> time u = Absent \<and>
    sequence_step (process_tick st now symbol (Decoded u)) now' symbol t = Done sd' \<and>
    bid t = Some b \<and> time t = Val ts \<and> gap_pips symbol b bu = Some gu \<longrightarrow>
      gap_counts (process_tick (process_tick st now symbol (Decoded u)) now' symbol (Decoded t)) =
        (if fl_ge_one gu then add_large else add_small)
          (ensure_counts (gap_counts (roll_minute st (minute_of ts))) symbol) symbol) \<and>
   previous_bids (sub_save_gap_counts ss) = previous_bids ss \<and>
   previous_bids (sub_roll_minute ss cm) = previous_bids ss \<and>
   dom (previous_bids ss) \<subseteq> dom (previous_bids (sub_process_tick ss symbol pl)) \<and>
   (try_sub_process_tick ss symbol (Decoded t) = Done ss' \<and> bid t = Some b \<longrightarrow>
      sub_process_tick ss symbol (Decoded t) = ss' \<and>
      previous_bids ss' = (previous_bids ss)(symbol \<mapsto> b)) \<and>
   (try_sub_process_tick ss symbol pr = Raised e' ssr \<longrightarrow>
      sub_process_tick ss symbol pr = ssr \<and> previous_bids ssr = previous_bids ss) \<and>
   (is_done (try_sub_process_tick ss symbol (Decoded t)) \<longleftrightarrow>
      (case bid t of
         None \<Rightarrow> True
       | Some b \<Rightarrow>
           (case time t of
              Absent \<Rightarrow> True
            | Raises \<Rightarrow> False
            | Val ts \<Rightarrow>
                (case previous_bids ss symbol of None \<Rightarrow> True | Some p \<Rightarrow> gap_pips symbol b p \<noteq> None)))) \<and>
   (bid t = Some b \<and> time t = Val ts \<and>
    sub_minute_start_time ss = Some m \<and> minute_of ts \<noteq> m \<and>
    previous_bids ss symbol = Some p \<and> gap_pips symbol b p = Some g \<longrightarrow>
      sub_gap_counts (sub_process_tick ss symbol (Decoded t)) =
        [(symbol, if fl_ge_one g then \<lparr>large = 1, small = 0\<rparr> else \<lparr>large = 0, small = 1\<rparr>)]) \<and>
   (bid u = Some bu \<and> time u = Absent \<longrightarrow>
      previous_bids (sub_process_tick ss symbol (Decoded u)) = (previous_bids ss)(symbol \<mapsto> bu) \<and>
      sub_gap_counts (sub_process_tick ss symbol (Decoded u)) = sub_gap_counts ss \<and>
      sub_minute_start_time (sub_process_tick ss symbol (Decoded u)) = sub_minute_start_time ss)"
proof -
  have a2: "dom (prev_bids st) \<subseteq> dom (prev_bids (process_tick st now symbol pl))"
    using process_tick_prev_bids [of st now symbol pl] by auto
  have a3: "process_tick st now symbol (Decoded t) = st' \<and>
      prev_bids st' = (prev_bids st)(symbol \<mapsto> b)"
    if h: "try_process_tick st now symbol (Decoded t) = Done st'" "bid t = Some b"
    using try_process_tick_prev_bids(1) [OF h(1)] h by (simp add: process_tick_def)
  have a4: "process_tick st now symbol pr = sr \<and> prev_bids sr = prev_bids st"
    if h: "try_process_tick st now symbol pr = Raised e sr"
    using try_process_tick_prev_bids(2) [OF h] h by (simp add: process_tick_def)
  have a5: "gap_counts (process_tick st now symbol (Decoded t)) =
        [(symbol, if fl_ge_one g then \<lparr>large = 1, small = 0\<rparr> else \<lparr>large = 0, small = 1\<rparr>)] \<and>
      prev_bids (process_tick st now symbol (Decoded t)) = (prev_bids st)(symbol \<mapsto> b)"
    if h: "sequence_step st now symbol t = Done sd" "bid t = Some b" "time t = Val ts"
      "minute_start_time st = Some m" "minute_of ts \<noteq> m"
      "prev_bids st symbol = Some p" "gap_pips symbol b p = Some g"
  proof -
    have p1: "prev_bids sd symbol = Some p" "prev_bids sd = prev_bids st"
      using h(6) by (simp_all add: sequence_step_returned(2) [OF h(1)])
    have "gap_counts (process_tick st now symbol (Decoded t)) =
        [(symbol, if fl_ge_one g then \<lparr>large = 1, small = 0\<rparr> else \<lparr>large = 0, small = 1\<rparr>)]"
      by (rule new_window_gap_counts [OF h])
    moreover have "prev_bids (process_tick st now symbol (Decoded t)) = (prev_bids st)(symbol \<mapsto> b)"
      unfolding process_tick_timed [OF h(1,2,3)]
      using aggregate_classified(2) [OF p1(1) h(7), of ts] p1(2) by simp
    ultimately show ?thesis by simp
  qed
  have a6: "prev_bids (process_tick st now symbol (Decoded u)) = (prev_bids st)(symbol \<mapsto> bu) \<and>
      gap_counts (process_tick st now symbol (Decoded u)) = gap_counts st \<and>
      minute_start_time (process_tick st now symbol (Decoded u)) = minute_start_time st"
    if h: "sequence_step st now symbol u = Done su" "bid u = Some bu" "time u = Absent"
    using untimed_tick [OF h] by simp
  have a7: "gap_counts (process_tick (process_tick st now symbol (Decoded u)) now' symbol (Decoded t)) =
        (if fl_ge_one gu then add_large else add_small)
          (ensure_counts (gap_counts (roll_minute st (minute_of ts))) symbol) symbol"
    if h: "sequence_step st now symbol u = Done su" "bid u = Some bu" "time u = Absent"
      "sequence_step (process_tick st now symbol (Decoded u)) now' symbol t = Done sd'"
      "bid t = Some b" "time t = Val ts" "gap_pips symbol b bu = Some gu"
  proof -
    let ?s = "process_tick st now symbol (Decoded u)"
    have p: "prev_bids ?s symbol = Some bu" using a6 [OF h(1,2,3)] by simp
    have r: "gap_counts (roll_minute ?s (minute_of ts)) = gap_counts (roll_minute st (minute_of ts))"
      using a6 [OF h(1,2,3)] by (simp add: roll_minute_def Let_def save_gap_counts_fields)
    show ?thesis
      using classified_gap_counts [OF h(4,5,6) p h(7)] r by simp
  qed
  have b2: "dom (previous_bids ss) \<subseteq> dom (previous_bids (sub_process_tick ss symbol pl))"
    using sub_process_tick_prev_bids [of ss symbol pl] by auto
  have b3: "sub_process_tick ss symbol (Decoded t) = ss' \<and>
      previous_bids ss' = (previous_bids ss)(symbol \<mapsto> b)"
    if h: "try_sub_process_tick ss symbol (Decoded t) = Done ss'" "bid t = Some b"
    using try_sub_process_tick_prev_bids(1) [OF h(1)] h by (simp add: sub_process_tick_def)
  have b4: "sub_process_tick ss symbol pr = ssr \<and> previous_bids ssr = previous_bids ss"
    if h: "try_sub_process_tick ss symbol pr = Raised e' ssr"
    using try_sub_process_tick_prev_bids(2) [OF h] h by (simp add: sub_process_tick_def)
  have b5: "sub_gap_counts (sub_process_tick ss symbol (Decoded t)) =
        [(symbol, if fl_ge_one g then \<lparr>large = 1, small = 0\<rparr> else \<lparr>large = 0, small = 1\<rparr>)]"
    if h: "bid t = Some b" "time t = Val ts" "sub_minute_start_time ss = Some m" "minute_of ts \<noteq> m"
      "previous_bids ss symbol = Some p" "gap_pips symbol b p = Some g"
    unfolding sub_process_tick_classified(1) [OF h(1,2,5,6)]
    using h(3,4) by (simp add: sub_roll_minute_new ensure_counts_def add_large_def add_small_def)
  have b6: "previous_bids (sub_process_tick ss symbol (Decoded u)) = (previous_bids ss)(symbol \<mapsto> bu) \<and>
      sub_gap_counts (sub_process_tick ss symbol (Decoded u)) = sub_gap_counts ss \<and>
      sub_minute_start_time (sub_process_tick ss symbol (Decoded u)) = sub_minute_start_time ss"
    if h: "bid u = Some bu" "time u = Absent"
    unfolding sub_process_tick_untimed [OF h] by simp
  show ?thesis
    using a2 a3 a4 a5 a6 a7 b2 b3 b4 b5 b6
      try_process_tick_is_done [of st now symbol t] try_sub_process_tick_is_done [of ss symbol t]
      save_gap_counts_fields(4) [of st] roll_minute_fields(4) [of st cm]
      sub_save_gap_counts_fields(1) [of ss] sub_roll_minute_fields(1) [of ss cm]
    by blast
qed

theorem previous_bid_never_cleared_witness:
  "minute_of 43260 \<noteq> 43200 \<and>
   gap_counts (process_tick example_receiver 100 ''EURUSD'' (Decoded \<lparr>seq_num = Absent, bid = Some (JFloat (round_double (110011 / 100000))), time = Val 43260\<rparr>)) =
     [(''EURUSD'', \<lparr>large = 1, small = 0\<rparr>)] \<and>
   prev_bids (process_tick example_receiver 100 ''EURUSD'' (Decoded \<lparr>seq_num = Absent, bid = Some (JFloat (round_double (110011 / 100000))), time = Val 43260\<rparr>)) ''EURUSD'' =
     Some (JFloat (round_double (110011 / 100000))) \<and>
   try_process_tick example_receiver 100 ''EURUSD'' (Decoded \<lparr>seq_num = Absent, bid = Some (JFloat (round_double (110011 / 100000))), time = Val 43260\<rparr>) =
     Done (process_tick example_receiver 100 ''EURUSD'' (Decoded \<lparr>seq_num = Absent, bid = Some (JFloat (round_double (110011 / 100000))), time = Val 43260\<rparr>)) \<and>
   try_process_tick example_receiver 100 ''EURUSD'' (Decoded \<lparr>seq_num = Absent, bid = Some (JFloat (Finite (3 / 2))), time = Raises\<rparr>) =
     Raised ConversionError example_receiver \<and>
   prev_bids (process_tick example_receiver 100 ''EURUSD'' (Decoded \<lparr>seq_num = Absent, bid = Some (JFloat (Finite (3 / 2))), time = Raises\<rparr>)) =
     prev_bids example_receiver \<and>
   gap_counts (process_tick
       (process_tick example_receiver 100 ''EURUSD'' (Decoded \<lparr>seq_num = Absent, bid = Some (JFloat (round_double (22001 / 20000))), time = Absent\<rparr>))
       100 ''EURUSD'' (Decoded \<lparr>seq_num = Absent, bid = Some (JFloat (round_double (110011 / 100000))), time = Val 43260\<rparr>)) =
     [(''EURUSD'', \<lparr>large = 0, small = 1\<rparr>)] \<and>
   sub_gap_counts (sub_process_tick example_subscriber ''EURUSD'' (Decoded \<lparr>seq_num = Absent, bid = Some (JFloat (round_double (110011 / 100000))), time = Val 43260\<rparr>)) =
     [(''EURUSD'', \<lparr>large = 1, small = 0\<rparr>)] \<and>
   previous_bids (sub_process_tick example_subscriber ''EURUSD'' (Decoded \<lparr>seq_num = Absent, bid = Some (JFloat (round_double (22001 / 20000))), time = Absent\<rparr>))
     ''EURUSD'' = Some (JFloat (round_double (22001 / 20000))) \<and>
   previous_bids (sub_process_tick example_subscriber ''EURUSD'' (Decoded \<lparr>seq_num = Absent, bid = Some (JFloat (Finite (3 / 2))), time = Raises\<rparr>)) =
     previous_bids example_subscriber"
proof -
  let ?T = "\<lparr>seq_num = Absent, bid = Some (JFloat (round_double (110011 / 100000))), time = Val 43260\<rparr>"
  let ?U = "\<lparr>seq_num = Absent, bid = Some (JFloat (round_double (22001 / 20000))), time = Absent\<rparr>"
  let ?R = "\<lparr>seq_num = Absent, bid = Some (JFloat (Finite (3 / 2))), time = Raises\<rparr>"
  let ?s = "process_tick example_receiver 100 ''EURUSD'' (Decoded ?U)"
  note W = previous_bid_never_cleared [where st = example_receiver and cm = 0 and now = 100
      and symbol = "''EURUSD''" and pl = Undecodable and t = ?T
      and st' = "process_tick example_receiver 100 ''EURUSD'' (Decoded ?T)"
      and b = "JFloat (round_double (110011 / 100000))" and pr = "Decoded ?R"
      and e = ConversionError and sr = example_receiver and sd = example_receiver
      and ts = 43260 and m = 43200
      and p = "JFloat (round_double (11 / 10))" and g = "Finite (154811237190625 / 140737488355328)"
      and u = ?U and su = example_receiver and bu = "JFloat (round_double (22001 / 20000))"
      and now' = 100 and sd' = ?s
      and gu = "Finite (84442493013125 / 140737488355328)" and ss = example_subscriber
      and ss' = "sub_process_tick example_subscriber ''EURUSD'' (Decoded ?T)"
      and e' = ConversionError and ssr = example_subscriber]
  have m: "minute_of 43260 \<noteq> 43200" by (simp add: minute_of_def)
  have ht: "bid ?T = Some (JFloat (round_double (110011 / 100000)))" "time ?T = Val 43260"
    "sequence_step example_receiver 100 ''EURUSD'' ?T = Done example_receiver"
    "sequence_step ?s 100 ''EURUSD'' ?T = Done ?s"
    by (simp_all add: sequence_step_def)
  have hu: "bid ?U = Some (JFloat (round_double (22001 / 20000)))" "time ?U = Absent"
    "sequence_step example_receiver 100 ''EURUSD'' ?U = Done example_receiver"
    by (simp_all add: sequence_step_def)
  have hr: "try_process_tick example_receiver 100 ''EURUSD'' (Decoded ?R) =
      Raised ConversionError example_receiver"
    "try_sub_process_tick example_subscriber ''EURUSD'' (Decoded ?R) =
      Raised ConversionError example_subscriber"
    by (simp_all add: try_process_tick_def sequence_step_def try_sub_process_tick_def)
  have hs: "minute_start_time example_receiver = Some 43200"
    "prev_bids example_receiver ''EURUSD'' = Some (JFloat (round_double (11 / 10)))"
    "gap_counts (roll_minute example_receiver (minute_of 43260)) = []"
    using m by (simp_all add: example_receiver_def roll_minute_def Let_def)
  have hss: "sub_minute_start_time example_subscriber = Some 43200"
    "previous_bids example_subscriber ''EURUSD'' = Some (JFloat (round_double (11 / 10)))"
    by (simp_all add: example_subscriber_def)
  have "is_done (try_process_tick example_receiver 100 ''EURUSD'' (Decoded ?T))"
    using W [THEN conjunct2, THEN conjunct2, THEN conjunct2, THEN conjunct2, THEN conjunct2, THEN conjunct1] ht(3) hs(2) example_eurusd_large by simp
  then have d: "try_process_tick example_receiver 100 ''EURUSD'' (Decoded ?T) =
      Done (process_tick example_receiver 100 ''EURUSD'' (Decoded ?T))"
    unfolding process_tick_def by (rule outcome_done)
  have c3: "prev_bids (process_tick example_receiver 100 ''EURUSD'' (Decoded ?T)) =
      (prev_bids example_receiver)(''EURUSD'' \<mapsto> JFloat (round_double (110011 / 100000)))"
    using W [THEN conjunct2, THEN conjunct2, THEN conjunct2, THEN conjunct1] d ht(1) by blast
  have c4: "prev_bids example_receiver = prev_bids example_receiver \<and>
      process_tick example_receiver 100 ''EURUSD'' (Decoded ?R) = example_receiver"
    using W [THEN conjunct2, THEN conjunct2, THEN conjunct2, THEN conjunct2, THEN conjunct1] hr(1) by blast
  have c6: "gap_counts (process_tick example_receiver 100 ''EURUSD'' (Decoded ?T)) =
      [(''EURUSD'', if fl_ge_one (Finite (154811237190625 / 140737488355328))
                    then \<lparr>large = 1, small = 0\<rparr> else \<lparr>large = 0, small = 1\<rparr>)]"
    using W [THEN conjunct2, THEN conjunct2, THEN conjunct2, THEN conjunct2, THEN conjunct2, THEN conjunct2, THEN conjunct1] ht(1,2,3) hs(1,2) m example_eurusd_large by blast
  have c8: "gap_counts (process_tick ?s 100 ''EURUSD'' (Decoded ?T)) =
      (if fl_ge_one (Finite (84442493013125 / 140737488355328)) then add_large else add_small)
        (ensure_counts (gap_counts (roll_minute example_receiver (minute_of 43260))) ''EURUSD'')
        ''EURUSD''"
    using W [THEN conjunct2, THEN conjunct2, THEN conjunct2, THEN conjunct2, THEN conjunct2, THEN conjunct2, THEN conjunct2, THEN conjunct2, THEN conjunct1] ht(1,2,4) hu example_eurusd_forth by blast
  have c13: "sub_process_tick example_subscriber ''EURUSD'' (Decoded ?R) = example_subscriber"
    using W [THEN conjunct2, THEN conjunct2, THEN conjunct2, THEN conjunct2, THEN conjunct2, THEN conjunct2, THEN conjunct2, THEN conjunct2, THEN conjunct2, THEN conjunct2, THEN conjunct2, THEN conjunct2, THEN conjunct2, THEN conjunct1] hr(2) by blast
  have c15: "sub_gap_counts (sub_process_tick example_subscriber ''EURUSD'' (Decoded ?T)) =
      [(''EURUSD'', if fl_ge_one (Finite (154811237190625 / 140737488355328))
                    then \<lparr>large = 1, small = 0\<rparr> else \<lparr>large = 0, small = 1\<rparr>)]"
    using W [THEN conjunct2, THEN conjunct2, THEN conjunct2, THEN conjunct2, THEN conjunct2, THEN conjunct2, THEN conjunct2, THEN conjunct2, THEN conjunct2, THEN conjunct2, THEN conjunct2, THEN conjunct2, THEN conjunct2, THEN conjunct2, THEN conjunct2, THEN conjunct1] ht(1,2) hss m example_eurusd_large by blast
  have c16: "previous_bids (sub_process_tick example_subscriber ''EURUSD'' (Decoded ?U)) =
      (previous_bids example_subscriber)(''EURUSD'' \<mapsto> JFloat (round_double (22001 / 20000)))"
    using W [THEN conjunct2, THEN conjunct2, THEN conjunct2, THEN conjunct2, THEN conjunct2, THEN conjunct2, THEN conjunct2, THEN conjunct2, THEN conjunct2, THEN conjunct2, THEN conjunct2, THEN conjunct2, THEN conjunct2, THEN conjunct2, THEN conjunct2, THEN conjunct2] hu(1,2) by blast
  show ?thesis
    unfolding c3 c6 c8 c15 c16 hs(3) c13
    using m d hr(1) c4 by (simp add: ensure_counts_def add_small_def)
qed

theorem valid_bid_not_stored_counterexample:
  "as_number (JFloat (Finite (3 / 2))) = Some (PyFloat (Finite (3 / 2))) \<and>
   prev_bids example_receiver ''EURUSD'' = Some (JFloat (round_double (11 / 10))) \<and>
   JFloat (round_double (11 / 10)) \<noteq> JFloat (Finite (3 / 2)) \<and>
   prev_bids (process_tick example_receiver 100 ''EURUSD'' (Decoded \<lparr>seq_num = Raises, bid = Some (JFloat (Finite (3 / 2))), time = Absent\<rparr>)) ''EURUSD'' =
     Some (JFloat (round_double (11 / 10))) \<and>
   prev_bids (process_tick example_receiver 100 ''EURUSD'' (Decoded \<lparr>seq_num = Absent, bid = Some (JFloat (Finite (3 / 2))), time = Raises\<rparr>)) ''EURUSD'' =
     Some (JFloat (round_double (11 / 10))) \<and>
   previous_bids (sub_process_tick example_subscriber ''EURUSD'' (Decoded \<lparr>seq_num = Absent, bid = Some (JFloat (Finite (3 / 2))), time = Raises\<rparr>)) ''EURUSD'' =
     Some (JFloat (round_double (11 / 10)))"
proof -
  have y: "round_double (11 / 10) = Finite (2476979795053773 / 2251799813685248)"
    by (rule round_double_cert [where e = "0" and n = 4953959590107546]) (simp_all add: pow2_def)
  have n: "JFloat (round_double (11 / 10)) \<noteq> JFloat (Finite (3 / 2))"
    unfolding y by simp
  show ?thesis
    using n
    by (simp add: process_tick_unfold sequence_step_def sub_process_tick_unfold
        example_receiver_def example_subscriber_def)
qed

subsection \<open>Shutdown\<close>

lemma save_gap_counts_running:
  "db_conn (save_gap_counts (st\<lparr>running := r\<rparr>)) = db_conn (save_gap_counts st)"
  by (simp add: save_gap_counts_def split: option.splits)

lemma stop_actions:
  "snd (stop st) =
     (if minute_start_time st \<noteq> None then [SaveGapCounts] else []) @ [CloseSubscriber] @
     (case requester st of None \<Rightarrow> [] | Some _ \<Rightarrow> [CloseRequester]) @ [TermContext] @
     (case db_conn st of None \<Rightarrow> [] | Some _ \<Rightarrow> [CloseDatabase]) @ [PrintFinalStats]"
  by (simp add: stop_def Let_def case_prod_unfold save_gap_counts_def split: option.splits)

lemma stop_db_conn:
  "db_conn (fst (stop st)) =
     close_database (db_conn (if minute_start_time st \<noteq> None then save_gap_counts st else st))"
  by (simp add: stop_def Let_def case_prod_unfold save_gap_counts_def close_database_def
      split: option.splits)

lemma sub_stop_actions:
  "snd (sub_stop ss) =
     [CloseSubscriber, TermContext] @
     (if sub_minute_start_time ss \<noteq> None \<and> sub_gap_counts ss \<noteq> [] then [SaveGapCounts] else []) @
     (case sub_db_conn ss of None \<Rightarrow> [] | Some _ \<Rightarrow> [CloseDatabase])"
  by (simp add: sub_stop_def Let_def case_prod_unfold sub_save_gap_counts_def split: option.splits)

lemma sub_save_gap_counts_flags:
  "sub_db_conn (sub_save_gap_counts (ss\<lparr>sub_running := r, socket_open := o1, sub_context_open := o2\<rparr>)) =
     sub_db_conn (sub_save_gap_counts ss)"
  by (simp add: sub_save_gap_counts_def split: option.splits)

lemma sub_stop_db_conn:
  "sub_db_conn (fst (sub_stop ss)) =
     close_database (sub_db_conn (if sub_minute_start_time ss \<noteq> None \<and> sub_gap_counts ss \<noteq> []
                                  then sub_save_gap_counts ss else ss))"
  by (simp add: sub_stop_def Let_def case_prod_unfold sub_save_gap_counts_def close_database_def
      split: option.splits)

lemma ensure_counts_nonempty: "ensure_counts gc s \<noteq> []"
  by (cases gc) (simp_all add: ensure_counts_def)

lemma add_large_nonempty: "add_large gc s = [] \<longleftrightarrow> gc = []"
  by (simp add: add_large_def)

lemma add_small_nonempty: "add_small gc s = [] \<longleftrightarrow> gc = []"
  by (simp add: add_small_def)

lemma sub_open_window_has_bucket:
  assumes "sub_minute_start_time ss \<noteq> None \<longrightarrow> sub_gap_counts ss \<noteq> []"
  shows "sub_minute_start_time (sub_process_tick ss symbol pl) \<noteq> None \<longrightarrow>
         sub_gap_counts (sub_process_tick ss symbol pl) \<noteq> []"
  using assms
  by (auto simp: sub_process_tick_unfold Let_def sub_count_gap_def ensure_counts_nonempty
      add_large_nonempty add_small_nonempty
      split: payload.splits option.splits fld.splits if_splits)

lemma open_window_has_bucket:
  assumes "minute_start_time st \<noteq> None \<longrightarrow> gap_counts st \<noteq> []"
  shows "minute_start_time (process_tick st now symbol pl) \<noteq> None \<longrightarrow>
         gap_counts (process_tick st now symbol pl) \<noteq> []"
proof (cases pl)
  case Undecodable
  then show ?thesis using assms by (simp add: process_tick_unfold)
next
  case (Decoded t)
  let ?st1 = "case seq_num t of Val sn \<Rightarrow> check_sequence st now symbol sn | _ \<Rightarrow> st"
  have i: "minute_start_time ?st1 \<noteq> None \<longrightarrow> gap_counts ?st1 \<noteq> []"
    using assms by (simp add: seq_checked_aggregation)
  have a: "gap_counts (aggregate ?st1 symbol b ts) \<noteq> []" for b ts
    by (simp add: aggregate_gap_counts Let_def ensure_counts_nonempty add_large_nonempty
        add_small_nonempty split: option.splits)
  show ?thesis
    using i a unfolding Decoded
    by (auto simp: process_tick_state Let_def split: fld.splits option.splits)
qed

text \<open>
  C4. \<open>stop\<close> of the high performance receiver with an open window saves the buckets
  first and exactly once, then closes the sockets and the context, then the database,
  which therefore holds the rows of the open window when it is closed.
  \<open>sub_stop\<close> of the subscriber closes socket and context first; with an open window
  that has a bucket it then saves the buckets, exactly once, and closes the database
  last. Every window opened by \<open>sub_process_tick\<close> has a bucket.
\<close>

theorem stop_saves_before_closing_database:
  "(minute_start_time st = Some m \<longrightarrow>
      snd (stop st) =
        [SaveGapCounts, CloseSubscriber] @
        (case requester st of None \<Rightarrow> [] | Some _ \<Rightarrow> [CloseRequester]) @ [TermContext] @
        (case db_conn st of None \<Rightarrow> [] | Some _ \<Rightarrow> [CloseDatabase]) @ [PrintFinalStats] \<and>
      length (filter (\<lambda>a. a = SaveGapCounts) (snd (stop st))) = 1 \<and>
      db_conn (fst (stop st)) = close_database (db_conn (save_gap_counts st))) \<and>
   (minute_start_time st = Some m \<and> db_conn st = Some db \<and> \<not> is_closed db \<and>
    distinct (map fst (gap_counts st)) \<and> (s, c) \<in> set (gap_counts st) \<longrightarrow>
      map_option (\<lambda>d. (is_closed d, filter (\<lambda>r. tick_gap_key r = (m, s)) (tick_gaps d)))
        (db_conn (fst (stop st))) =
      Some (True, [\<lparr>tg_timestamp = m, tg_symbol = s, tg_minute = minute_str m,
                     large_gap_count = large c, small_gap_count = small c\<rparr>])) \<and>
   (sub_minute_start_time ss = Some m \<and> sub_gap_counts ss \<noteq> [] \<longrightarrow>
      snd (sub_stop ss) =
        [CloseSubscriber, TermContext, SaveGapCounts] @
        (case sub_db_conn ss of None \<Rightarrow> [] | Some _ \<Rightarrow> [CloseDatabase]) \<and>
      length (filter (\<lambda>a. a = SaveGapCounts) (snd (sub_stop ss))) = 1 \<and>
      sub_db_conn (fst (sub_stop ss)) = close_database (sub_db_conn (sub_save_gap_counts ss))) \<and>
   (sub_minute_start_time ss = Some m \<and> sub_db_conn ss = Some db \<and> \<not> is_closed db \<and>
    distinct (map fst (sub_gap_counts ss)) \<and> (s, c) \<in> set (sub_gap_counts ss) \<longrightarrow>
      map_option (\<lambda>d. (is_closed d, filter (\<lambda>r. tick_gap_key r = (m, s)) (tick_gaps d)))
        (sub_db_conn (fst (sub_stop ss))) =
      Some (True, [\<lparr>tg_timestamp = m, tg_symbol = s, tg_minute = minute_str m,
                     large_gap_count = large c, small_gap_count = small c\<rparr>])) \<and>
   ((sub_minute_start_time ss \<noteq> None \<longrightarrow> sub_gap_counts ss \<noteq> []) \<longrightarrow>
    (sub_minute_start_time (sub_process_tick ss symbol pl) \<noteq> None \<longrightarrow>
       sub_gap_counts (sub_process_tick ss symbol pl) \<noteq> []))"
proof -
  have a: "snd (stop st) =
        [SaveGapCounts, CloseSubscriber] @
        (case requester st of None \<Rightarrow> [] | Some _ \<Rightarrow> [CloseRequester]) @ [TermContext] @
        (case db_conn st of None \<Rightarrow> [] | Some _ \<Rightarrow> [CloseDatabase]) @ [PrintFinalStats] \<and>
      length (filter (\<lambda>a. a = SaveGapCounts) (snd (stop st))) = 1 \<and>
      db_conn (fst (stop st)) = close_database (db_conn (save_gap_counts st))"
    if "minute_start_time st = Some m"
    using that by (simp add: stop_actions stop_db_conn split: option.splits)
  have b: "map_option (\<lambda>d. (is_closed d, filter (\<lambda>r. tick_gap_key r = (m, s)) (tick_gaps d)))
        (db_conn (fst (stop st))) =
      Some (True, [\<lparr>tg_timestamp = m, tg_symbol = s, tg_minute = minute_str m,
                     large_gap_count = large c, small_gap_count = small c\<rparr>])"
    if h: "minute_start_time st = Some m" "db_conn st = Some db" "\<not> is_closed db"
      "distinct (map fst (gap_counts st))" "(s, c) \<in> set (gap_counts st)"
    using h(1,2) write_gap_counts_row [OF h(3,4,5), of m]
    by (simp add: stop_db_conn save_gap_counts_def close_database_def)
  have c: "snd (sub_stop ss) =
        [CloseSubscriber, TermContext, SaveGapCounts] @
        (case sub_db_conn ss of None \<Rightarrow> [] | Some _ \<Rightarrow> [CloseDatabase]) \<and>
      length (filter (\<lambda>a. a = SaveGapCounts) (snd (sub_stop ss))) = 1 \<and>
      sub_db_conn (fst (sub_stop ss)) = close_database (sub_db_conn (sub_save_gap_counts ss))"
    if "sub_minute_start_time ss = Some m" "sub_gap_counts ss \<noteq> []"
    using that by (simp add: sub_stop_actions sub_stop_db_conn split: option.splits)
  have d: "map_option (\<lambda>d. (is_closed d, filter (\<lambda>r. tick_gap_key r = (m, s)) (tick_gaps d)))
        (sub_db_conn (fst (sub_stop ss))) =
      Some (True, [\<lparr>tg_timestamp = m, tg_symbol = s, tg_minute = minute_str m,
                     large_gap_count = large c, small_gap_count = small c\<rparr>])"
    if h: "sub_minute_start_time ss = Some m" "sub_db_conn ss = Some db" "\<not> is_closed db"
      "distinct (map fst (sub_gap_counts ss))" "(s, c) \<in> set (sub_gap_counts ss)"
  proof -
    have "sub_gap_counts ss \<noteq> []" using h(5) by auto
    then show ?thesis
      using h(1,2) write_gap_counts_row [OF h(3,4,5), of m]
      by (simp add: sub_stop_db_conn sub_save_gap_counts_def close_database_def)
  qed
  show ?thesis
    using a b c d sub_open_window_has_bucket [of ss symbol pl] by blast
qed

theorem stop_saves_before_closing_database_witness:
  "snd (stop example_receiver) =
     [SaveGapCounts, CloseSubscriber, CloseRequester, TermContext, CloseDatabase, PrintFinalStats] \<and>
   map_option (\<lambda>d. (is_closed d, filter (\<lambda>r. tick_gap_key r = (43200, ''EURUSD'')) (tick_gaps d)))
     (db_conn (fst (stop example_receiver))) =
     Some (True, [\<lparr>tg_timestamp = 43200, tg_symbol = ''EURUSD'', tg_minute = ''1970-01-01 12:00:00'',
                   large_gap_count = 2, small_gap_count = 3\<rparr>]) \<and>
   snd (sub_stop example_subscriber) = [CloseSubscriber, TermContext, SaveGapCounts, CloseDatabase] \<and>
   map_option (\<lambda>d. (is_closed d, filter (\<lambda>r. tick_gap_key r = (43200, ''EURUSD'')) (tick_gaps d)))
     (sub_db_conn (fst (sub_stop example_subscriber))) =
     Some (True, [\<lparr>tg_timestamp = 43200, tg_symbol = ''EURUSD'', tg_minute = ''1970-01-01 12:00:00'',
                   large_gap_count = 2, small_gap_count = 3\<rparr>])"
proof -
  note W = stop_saves_before_closing_database [where st = example_receiver
      and ss = example_subscriber and m = 43200 and db = empty_database and s = "''EURUSD''"
      and c = "\<lparr>large = 2, small = 3\<rparr>" and symbol = "''EURUSD''" and pl = Undecodable]
  have l: "minute_str 43200 = ''1970-01-01 12:00:00''"
    by code_simp
  have hs: "minute_start_time example_receiver = Some 43200"
    "db_conn example_receiver = Some empty_database"
    "distinct (map fst (gap_counts example_receiver))"
    "(''EURUSD'', \<lparr>large = 2, small = 3\<rparr>) \<in> set (gap_counts example_receiver)"
    "requester example_receiver = Some True"
    by (simp_all add: example_receiver_def init_def)
  have hss: "sub_minute_start_time example_subscriber = Some 43200"
    "sub_db_conn example_subscriber = Some empty_database"
    "distinct (map fst (sub_gap_counts example_subscriber))"
    "(''EURUSD'', \<lparr>large = 2, small = 3\<rparr>) \<in> set (sub_gap_counts example_subscriber)"
    "sub_gap_counts example_subscriber \<noteq> []"
    by (simp_all add: example_subscriber_def)
  have o: "\<not> is_closed empty_database" by (simp add: empty_database_def)
  have w1: "snd (stop example_receiver) =
        [SaveGapCounts, CloseSubscriber] @
        (case requester example_receiver of None \<Rightarrow> [] | Some _ \<Rightarrow> [CloseRequester]) @
        [TermContext] @
        (case db_conn example_receiver of None \<Rightarrow> [] | Some _ \<Rightarrow> [CloseDatabase]) @
        [PrintFinalStats]"
    using W [THEN conjunct1] hs(1) by blast
  have w2: "map_option (\<lambda>d. (is_closed d, filter (\<lambda>r. tick_gap_key r = (43200, ''EURUSD'')) (tick_gaps d)))
        (db_conn (fst (stop example_receiver))) =
      Some (True, [\<lparr>tg_timestamp = 43200, tg_symbol = ''EURUSD'', tg_minute = minute_str 43200,
                     large_gap_count = large \<lparr>large = 2, small = 3\<rparr>,
                     small_gap_count = small \<lparr>large = 2, small = 3\<rparr>\<rparr>])"
    using W [THEN conjunct2, THEN conjunct1] hs(1-4) o by blast
  have w3: "snd (sub_stop example_subscriber) =
        [CloseSubscriber, TermContext, SaveGapCounts] @
        (case sub_db_conn example_subscriber of None \<Rightarrow> [] | Some _ \<Rightarrow> [CloseDatabase])"
    using W [THEN conjunct2, THEN conjunct2, THEN conjunct1] hss(1,5) by blast
  have w4: "map_option (\<lambda>d. (is_closed d, filter (\<lambda>r. tick_gap_key r = (43200, ''EURUSD'')) (tick_gaps d)))
        (sub_db_conn (fst (sub_stop example_subscriber))) =
      Some (True, [\<lparr>tg_timestamp = 43200, tg_symbol = ''EURUSD'', tg_minute = minute_str 43200,
                     large_gap_count = large \<lparr>large = 2, small = 3\<rparr>,
                     small_gap_count = small \<lparr>large = 2, small = 3\<rparr>\<rparr>])"
    using W [THEN conjunct2, THEN conjunct2, THEN conjunct2, THEN conjunct1] hss(1-4) o by blast
  show ?thesis
    unfolding w1 w2 w3 w4 l hs(2,5) hss(2) by simp
qed

theorem subscriber_closes_socket_first_counterexample:
  "sub_minute_start_time example_subscriber = Some 43200 \<and>
   sub_gap_counts example_subscriber \<noteq> [] \<and>
   snd (sub_stop example_subscriber) = [CloseSubscriber, TermContext, SaveGapCounts, CloseDatabase]"
  by (simp add: example_subscriber_def sub_stop_def sub_save_gap_counts_def)

end
